theory Spec2Isabelle
  imports Main
begin

section \<open>Strings of the host language\<close>

text \<open>
  The script works on JavaScript strings. They are modelled as \<^typ>\<open>string\<close>, a list of
  8-bit characters read as the code units \<open>0 .. 255\<close> of a JavaScript string. The
  character classes of the regular expressions of \<^verbatim>\<open>script.js\<close> are predicates on
  one character.
\<close>

definition code :: "char \<Rightarrow> nat" where
  "code c = of_char c"

text \<open>\<^verbatim>\<open>\d\<close>, \<^verbatim>\<open>[0-9]\<close>\<close>

definition isDigit :: "char \<Rightarrow> bool" where
  "isDigit c = (48 \<le> code c \<and> code c \<le> 57)"

text \<open>\<^verbatim>\<open>[A-Z]\<close> and \<^verbatim>\<open>[a-z]\<close>\<close>

definition isUpper :: "char \<Rightarrow> bool" where
  "isUpper c = (65 \<le> code c \<and> code c \<le> 90)"

definition isLower :: "char \<Rightarrow> bool" where
  "isLower c = (97 \<le> code c \<and> code c \<le> 122)"

text \<open>\<^verbatim>\<open>s.charAt(i)\<close>: the one-character string at index \<open>i\<close>, the empty string out of range.\<close>

definition charAt :: "string \<Rightarrow> nat \<Rightarrow> string" where
  "charAt s i = (if i < length s then [s ! i] else [])"

text \<open>\<^verbatim>\<open>s.slice(0, -1)\<close>: all but the last character; the empty string stays empty.\<close>

definition slice_0_m1 :: "string \<Rightarrow> string" where
  "slice_0_m1 s = take (length s - 1) s"

section \<open>Masking of the identification number (\<^verbatim>\<open>formatSSN\<close>)\<close>

text \<open>
  The globals \<^verbatim>\<open>ssnActualValue\<close> and \<^verbatim>\<open>lastSSNMaskedLength\<close>, together with the
  \<^verbatim>\<open>value\<close> of the input element that \<^verbatim>\<open>formatSSN(input)\<close> reads and overwrites.
\<close>

record ssn_state =
  inputValue :: string
  ssnActualValue :: string
  lastSSNMaskedLength :: nat

definition ssn_init :: ssn_state where
  "ssn_init = \<lparr> inputValue = [], ssnActualValue = [], lastSSNMaskedLength = 0 \<rparr>"

text \<open>
  The loop \<^verbatim>\<open>for (let i = 0; i < ssnActualValue.length; i++)\<close> that builds
  \<^verbatim>\<open>maskedValue\<close>; \<open>n\<close> is \<^verbatim>\<open>ssnActualValue.length\<close>.
\<close>

function maskLoop :: "nat \<Rightarrow> nat \<Rightarrow> string \<Rightarrow> string" where
  "maskLoop i n maskedValue =
     (if i < n
      then maskLoop (i + 1) n
             ((maskedValue @ ''X'') @ (if i = 2 \<or> i = 4 then ''-'' else []))
      else maskedValue)"
  by pat_completeness auto
termination
  by (relation "measure (\<lambda>(i, n, m). n - i)") auto

declare maskLoop.simps [simp del]

definition formatSSN :: "ssn_state \<Rightarrow> ssn_state" where
  "formatSSN s =
     (let currentValue = inputValue s;
          currentLength = length currentValue;
          actual =
            (if currentLength > lastSSNMaskedLength s then
               (let newChar = charAt currentValue (currentLength - 1)
                in if list_ex isDigit newChar then
                     (if length (ssnActualValue s) < 9
                      then ssnActualValue s @ newChar
                      else ssnActualValue s)
                   else ssnActualValue s)
             else if currentLength < lastSSNMaskedLength s then
               slice_0_m1 (ssnActualValue s)
             else ssnActualValue s);
          maskedValue = maskLoop 0 (length actual) []
      in \<lparr> inputValue = maskedValue,
           ssnActualValue = actual,
           lastSSNMaskedLength = length maskedValue \<rparr>)"

text \<open>
  An input event on the field: the browser has replaced the field's text by \<open>v\<close> (a key
  press, a deletion, a paste), then the handler runs.
\<close>

definition ssnInput :: "string \<Rightarrow> ssn_state \<Rightarrow> ssn_state" where
  "ssnInput v s = formatSSN (s\<lparr>inputValue := v\<rparr>)"

text \<open>The user appends one character at the end of what the field shows.\<close>

definition typeChar :: "char \<Rightarrow> ssn_state \<Rightarrow> ssn_state" where
  "typeChar c s = ssnInput (inputValue s @ [c]) s"

fun typeChars :: "string \<Rightarrow> ssn_state \<Rightarrow> ssn_state" where
  "typeChars [] s = s"
| "typeChars (c # cs) s = typeChars cs (typeChar c s)"

text \<open>Any sequence of input events, each given by the text the field holds when the handler runs.\<close>

fun ssnRun :: "string list \<Rightarrow> ssn_state \<Rightarrow> ssn_state" where
  "ssnRun [] s = s"
| "ssnRun (v # vs) s = ssnRun vs (ssnInput v s)"

text \<open>The mask as a function of a length alone.\<close>

definition maskOfLength :: "nat \<Rightarrow> string" where
  "maskOfLength n = concat (map (\<lambda>i. if i = 2 \<or> i = 4 then ''X-'' else ''X'') [0..<n])"


section \<open>Dates of the host language\<close>

text \<open>
  \<^verbatim>\<open>validateDateOfBirth\<close> uses the built-in \<^verbatim>\<open>Date\<close>. Time values are integers,
  milliseconds since 1970-01-01T00:00Z; an invalid date (the time value \<^verbatim>\<open>NaN\<close>) is
  \<open>None\<close>. The day and year arithmetic is the one of the language standard. The host is a
  record of what the script cannot see: the time value that \<^verbatim>\<open>new Date()\<close> yields; the
  offset of local time from UTC, in milliseconds, that the host's time zone rules
  (daylight saving, historic offsets) put in force at a time value given in UTC
  (\<open>offsetAtUTC\<close>, used to read local fields) and at a time value given in local time
  (\<open>offsetAtLocal\<close>, used to build a date from local fields); and what the host's parser
  makes of a string that is not a date-only string \<^verbatim>\<open>YYYY-MM-DD\<close> of a real calendar day
  (the standard leaves that to the implementation).
\<close>

record clock =
  now :: int
  offsetAtUTC :: "int \<Rightarrow> int"
  offsetAtLocal :: "int \<Rightarrow> int"
  parseOther :: "string \<Rightarrow> int option"

definition msPerDay :: int where
  "msPerDay = 86400000"

definition DaysInYear :: "int \<Rightarrow> int" where
  "DaysInYear y =
     (if y mod 4 \<noteq> 0 then 365 else if y mod 100 \<noteq> 0 then 366
      else if y mod 400 \<noteq> 0 then 365 else 366)"

definition DayFromYear :: "int \<Rightarrow> int" where
  "DayFromYear y =
     365 * (y - 1970) + (y - 1969) div 4 - (y - 1901) div 100 + (y - 1601) div 400"

text \<open>
  The year of a day number: the largest \<open>y\<close> with \<open>DayFromYear y \<le> n\<close>. The search starts
  at the first year of the 400-year cycle (146097 days) that holds the day.
\<close>

fun yearUp :: "nat \<Rightarrow> int \<Rightarrow> int \<Rightarrow> int" where
  "yearUp 0 n y = y"
| "yearUp (Suc k) n y = (if DayFromYear (y + 1) \<le> n then yearUp k n (y + 1) else y)"

definition YearFromDay :: "int \<Rightarrow> int" where
  "YearFromDay n = yearUp 400 n (1970 + 400 * (n div 146097))"

definition leapDays :: "int \<Rightarrow> int" where
  "leapDays y = DaysInYear y - 365"

text \<open>The day within the year on which month \<open>m\<close> (0 to 11) starts; \<open>l\<close> is 1 in a leap year.\<close>

definition monthStart :: "int \<Rightarrow> int \<Rightarrow> int" where
  "monthStart l m =
     (if m = 0 then 0 else if m = 1 then 31 else if m = 2 then 59 + l
      else if m = 3 then 90 + l else if m = 4 then 120 + l else if m = 5 then 151 + l
      else if m = 6 then 181 + l else if m = 7 then 212 + l else if m = 8 then 243 + l
      else if m = 9 then 273 + l else if m = 10 then 304 + l else 334 + l)"

definition MonthFromDay :: "int \<Rightarrow> int" where
  "MonthFromDay n =
     (let y = YearFromDay n; l = leapDays y; d = n - DayFromYear y
      in if d < 31 then 0 else if d < 59 + l then 1 else if d < 90 + l then 2
         else if d < 120 + l then 3 else if d < 151 + l then 4 else if d < 181 + l then 5
         else if d < 212 + l then 6 else if d < 243 + l then 7 else if d < 273 + l then 8
         else if d < 304 + l then 9 else if d < 334 + l then 10 else 11)"

definition DateFromDay :: "int \<Rightarrow> int" where
  "DateFromDay n =
     (let y = YearFromDay n
      in n - DayFromYear y - monthStart (leapDays y) (MonthFromDay n) + 1)"

text \<open>\<^verbatim>\<open>MakeDay(year, month, date)\<close>: months beyond 0 to 11 carry into the year, and days
  beyond the month's length carry on into the next months.\<close>

definition MakeDay :: "int \<Rightarrow> int \<Rightarrow> int \<Rightarrow> int" where
  "MakeDay year month date =
     (let ym = year + month div 12; mn = month mod 12
      in DayFromYear ym + monthStart (leapDays ym) mn + date - 1)"

definition TimeClip :: "int \<Rightarrow> int option" where
  "TimeClip t = (if \<bar>t\<bar> > 8640000000000000 then None else Some t)"

text \<open>\<^verbatim>\<open>d.getFullYear()\<close>, \<^verbatim>\<open>d.getMonth()\<close>, \<^verbatim>\<open>d.getDate()\<close>: fields of the local time.\<close>

definition getFullYear :: "clock \<Rightarrow> int \<Rightarrow> int" where
  "getFullYear c t = YearFromDay ((t + offsetAtUTC c t) div msPerDay)"

definition getMonth :: "clock \<Rightarrow> int \<Rightarrow> int" where
  "getMonth c t = MonthFromDay ((t + offsetAtUTC c t) div msPerDay)"

definition getDate :: "clock \<Rightarrow> int \<Rightarrow> int" where
  "getDate c t = DateFromDay ((t + offsetAtUTC c t) div msPerDay)"

text \<open>\<^verbatim>\<open>new Date(year, month, day)\<close>: midnight of that day in local time, brought to UTC
  with the offset in force on that day; a year 0 to 99 means 1900 to 1999.\<close>

definition newDateYMD :: "clock \<Rightarrow> int \<Rightarrow> int \<Rightarrow> int \<Rightarrow> int option" where
  "newDateYMD c year month day =
     (let yr = (if 0 \<le> year \<and> year \<le> 99 then 1900 + year else year);
          localMidnight = MakeDay yr month day * msPerDay
      in TimeClip (localMidnight - offsetAtLocal c localMidnight))"

definition digitVal :: "char \<Rightarrow> int" where
  "digitVal ch = int (code ch) - 48"

definition DaysInMonth :: "int \<Rightarrow> int \<Rightarrow> int" where
  "DaysInMonth y m =
     (if m = 2 then 28 + leapDays y
      else if m = 4 \<or> m = 6 \<or> m = 9 \<or> m = 11 then 30 else 31)"

text \<open>A date-only string \<^verbatim>\<open>YYYY-MM-DD\<close> of a real calendar day, as (year, month 1 to 12, day).\<close>

fun isoDate :: "string \<Rightarrow> (int \<times> int \<times> int) option" where
  "isoDate [y1, y2, y3, y4, h1, m1, m2, h2, d1, d2] =
     (if list_all isDigit [y1, y2, y3, y4, m1, m2, d1, d2] \<and> h1 = CHR ''-'' \<and> h2 = CHR ''-''
      then
        (let y = 1000 * digitVal y1 + 100 * digitVal y2 + 10 * digitVal y3 + digitVal y4;
             m = 10 * digitVal m1 + digitVal m2;
             d = 10 * digitVal d1 + digitVal d2
         in if 1 \<le> m \<and> m \<le> 12 \<and> 1 \<le> d \<and> d \<le> DaysInMonth y m then Some (y, m, d) else None)
      else None)"
| "isoDate s = None"

text \<open>\<^verbatim>\<open>new Date(string)\<close>: a date-only string is midnight UTC of that day.\<close>

definition newDateString :: "clock \<Rightarrow> string \<Rightarrow> int option" where
  "newDateString c s =
     (case isoDate s of
        Some (y, m, d) \<Rightarrow> TimeClip (MakeDay y (m - 1) d * msPerDay)
      | None \<Rightarrow> parseOther c s)"

text \<open>\<^verbatim>\<open>a > b\<close> and \<^verbatim>\<open>a < b\<close> on dates compare time values; with \<^verbatim>\<open>NaN\<close> both are false.\<close>

definition dateGreater :: "int option \<Rightarrow> int option \<Rightarrow> bool" where
  "dateGreater a b = (case (a, b) of (Some x, Some y) \<Rightarrow> x > y | _ \<Rightarrow> False)"

definition dateLess :: "int option \<Rightarrow> int option \<Rightarrow> bool" where
  "dateLess a b = (case (a, b) of (Some x, Some y) \<Rightarrow> x < y | _ \<Rightarrow> False)"

text \<open>The date \<^verbatim>\<open>age120\<close> of \<^verbatim>\<open>validateDateOfBirth\<close>.\<close>

definition age120 :: "clock \<Rightarrow> int option" where
  "age120 c =
     newDateYMD c (getFullYear c (now c) - 120) (getMonth c (now c)) (getDate c (now c))"

definition validateDateOfBirth :: "clock \<Rightarrow> string \<Rightarrow> string option" where
  "validateDateOfBirth c dob =
     (if dob = [] then Some ''Required field is empty''
      else
        (let dobDate = newDateString c dob;
             today = Some (now c)
         in if dateGreater dobDate today then Some ''Cannot be in the future''
            else if dateLess dobDate (age120 c) then Some ''Cannot be more than 120 years ago''
            else None))"

section \<open>More of the host language's strings\<close>

text \<open>\<^verbatim>\<open>[A-Za-z]\<close>, \<^verbatim>\<open>[A-Za-z0-9]\<close> and \<^verbatim>\<open>\s\<close> (the white space among the code units below 256).\<close>

definition isLetter :: "char \<Rightarrow> bool" where
  "isLetter c = (isUpper c \<or> isLower c)"

definition isAlnum :: "char \<Rightarrow> bool" where
  "isAlnum c = (isLetter c \<or> isDigit c)"

definition isSpace :: "char \<Rightarrow> bool" where
  "isSpace c = ((9 \<le> code c \<and> code c \<le> 13) \<or> code c = 32 \<or> code c = 160)"

text \<open>\<^verbatim>\<open>s.trim()\<close>\<close>

definition trim :: "string \<Rightarrow> string" where
  "trim s = rev (dropWhile isSpace (rev (dropWhile isSpace s)))"

text \<open>\<^verbatim>\<open>s.toLowerCase()\<close> on code units below 256: the letters A to Z and the accented
  capitals from 192 to 222, but for the multiplication sign 215.\<close>

definition lowerChar :: "char \<Rightarrow> char" where
  "lowerChar c =
     (if isUpper c \<or> (192 \<le> code c \<and> code c \<le> 222 \<and> code c \<noteq> 215)
      then char_of (code c + 32) else c)"

definition toLowerCase :: "string \<Rightarrow> string" where
  "toLowerCase s = map lowerChar s"

text \<open>\<^verbatim>\<open>s.includes(t)\<close>: \<open>t\<close> occurs in \<open>s\<close> as a contiguous substring.\<close>

fun startsWith :: "string \<Rightarrow> string \<Rightarrow> bool" where
  "startsWith s [] = True"
| "startsWith [] (c # t) = False"
| "startsWith (a # s) (c # t) = (a = c \<and> startsWith s t)"

fun includesStr :: "string \<Rightarrow> string \<Rightarrow> bool" where
  "includesStr [] t = (t = [])"
| "includesStr (a # s) t = (startsWith (a # s) t \<or> includesStr s t)"

text \<open>\<^verbatim>\<open>xs.join(sep)\<close>\<close>

fun joinWith :: "string \<Rightarrow> string list \<Rightarrow> string" where
  "joinWith sep [] = []"
| "joinWith sep [x] = x"
| "joinWith sep (x # y # ys) = x @ sep @ joinWith sep (y # ys)"

text \<open>The decimal numeral of a natural number, as a template literal prints it.\<close>

function showNat :: "nat \<Rightarrow> string" where
  "showNat n =
     (if n < 10 then [char_of (48 + n)]
      else showNat (n div 10) @ [char_of (48 + n mod 10)])"
  by pat_completeness auto
termination
  by (relation "measure id") auto

declare showNat.simps [simp del]

text \<open>\<^verbatim>\<open>/^[class]{lo,hi}$/.test(s)\<close>\<close>

definition matchesClass :: "(char \<Rightarrow> bool) \<Rightarrow> nat \<Rightarrow> nat \<Rightarrow> string \<Rightarrow> bool" where
  "matchesClass cls lo hi s = (lo \<le> length s \<and> length s \<le> hi \<and> list_all cls s)"

section \<open>Limits of the date input (\<^verbatim>\<open>setDateLimits\<close>)\<close>

text \<open>The date part of \<^verbatim>\<open>d.toISOString()\<close>, the text before the \<^verbatim>\<open>T\<close>: the UTC day of the time
  value, the year with four digits, or with a sign and six digits beyond 0 to 9999.\<close>

definition padNat :: "nat \<Rightarrow> nat \<Rightarrow> string" where
  "padNat w n = replicate (w - length (showNat n)) (CHR ''0'') @ showNat n"

definition isoYear :: "int \<Rightarrow> string" where
  "isoYear y =
     (if 0 \<le> y \<and> y \<le> 9999 then padNat 4 (nat y)
      else (if y < 0 then ''-'' else ''+'') @ padNat 6 (nat \<bar>y\<bar>))"

definition toISODate :: "int \<Rightarrow> string" where
  "toISODate t =
     (let n = t div msPerDay
      in isoYear (YearFromDay n) @ ''-'' @ padNat 2 (nat (MonthFromDay n + 1))
           @ ''-'' @ padNat 2 (nat (DateFromDay n)))"

text \<open>
  The values that \<^verbatim>\<open>setDateLimits\<close> gives the attributes \<^verbatim>\<open>max\<close> and \<^verbatim>\<open>min\<close> of the date
  input, where the page has one: the date part of now, and the date part of \<^verbatim>\<open>minDate\<close>,
  which is the same expression as \<^verbatim>\<open>age120\<close> of \<^verbatim>\<open>validateDateOfBirth\<close>. \<open>None\<close> where
  \<^verbatim>\<open>minDate\<close> is an invalid date and \<^verbatim>\<open>toISOString\<close> raises.
\<close>

definition setDateLimits :: "clock \<Rightarrow> (string \<times> string) option" where
  "setDateLimits c =
     (let maxDate = toISODate (now c)
      in case age120 c of
           None \<Rightarrow> None
         | Some minDate \<Rightarrow> Some (maxDate, toISODate minDate))"

section \<open>Password rules (\<^verbatim>\<open>validatePassword\<close>)\<close>

text \<open>The class \<^verbatim>\<open>[!@#%^&*()\-_+=\/><.,`~]\<close>, by code unit, and \<^verbatim>\<open>["']\<close>.\<close>

definition isSpecial :: "char \<Rightarrow> bool" where
  "isSpecial c =
     (code c \<in> set [33, 64, 35, 37, 94, 38, 42, 40, 41, 45, 95, 43, 61, 47, 62, 60, 46, 44, 96, 126])"

definition isQuote :: "char \<Rightarrow> bool" where
  "isQuote c = (code c = 34 \<or> code c = 39)"

definition validatePassword :: "string \<Rightarrow> string \<Rightarrow> string \<Rightarrow> string \<Rightarrow> string list" where
  "validatePassword password userId firstName lastName =
     (let errors = [];
          errors = (if length password < 8 \<or> length password > 30
                    then errors @ [''Must be 8-30 characters''] else errors);
          errors = (if \<not> list_ex isUpper password
                    then errors @ [''Must contain 1 uppercase letter''] else errors);
          errors = (if \<not> list_ex isLower password
                    then errors @ [''Must contain 1 lowercase letter''] else errors);
          errors = (if \<not> list_ex isDigit password
                    then errors @ [''Must contain 1 digit''] else errors);
          errors = (if \<not> list_ex isSpecial password
                    then errors @ [''Must contain 1 special character''] else errors);
          errors = (if list_ex isQuote password
                    then errors @ [''Cannot contain quotes''] else errors);
          errors = (if userId \<noteq> [] \<and> includesStr (toLowerCase password) (toLowerCase userId)
                    then errors @ [''Cannot contain User ID''] else errors);
          errors = (if firstName \<noteq> [] \<and> includesStr (toLowerCase password) (toLowerCase firstName)
                    then errors @ [''Cannot contain first name''] else errors);
          errors = (if lastName \<noteq> [] \<and> includesStr (toLowerCase password) (toLowerCase lastName)
                    then errors @ [''Cannot contain last name''] else errors)
      in errors)"

section \<open>The form surface and the global state\<close>

text \<open>
  What the script reads and writes of the page: the elements that carry a \<^verbatim>\<open>name\<close>
  attribute (in document order; a radio group is several elements of one name), the
  per-field error elements \<^verbatim>\<open>error-<field>\<close>, the counter \<^verbatim>\<open>errorCounter\<close>, the style
  \<^verbatim>\<open>display\<close> of the submit and of the validate button (\<open>None\<close> where the page has no such
  element), and the globals \<^verbatim>\<open>validationErrors\<close>, \<^verbatim>\<open>fieldTouched\<close> and
  \<^verbatim>\<open>ssnActualValue\<close> (inside \<open>ssn\<close>). \<^verbatim>\<open>validationErrors\<close> is an association list in
  insertion order, the order of \<^verbatim>\<open>Object.keys\<close>.
\<close>

record element =
  etype :: string
  evalue :: string
  echecked :: bool
  erequired :: bool
  hasError :: bool

record error_element =
  textContent :: string
  display :: string

record counter_element =
  counterText :: string
  color :: string
  fontWeight :: string

record form_state =
  named :: "string \<Rightarrow> element list"
  errorElements :: "string \<Rightarrow> error_element option"
  errorCounter :: "counter_element option"
  submitBtn :: "string option"
  validateBtn :: "string option"
  validationErrors :: "(string \<times> string) list"
  fieldTouched :: "string \<Rightarrow> bool option"
  ssn :: ssn_state

text \<open>\<^verbatim>\<open>document.querySelector('[name="f"]')\<close> and \<^verbatim>\<open>document.querySelector('[name="f"]:checked')\<close>\<close>

definition querySelector :: "form_state \<Rightarrow> string \<Rightarrow> element option" where
  "querySelector st fieldName = (case named st fieldName of [] \<Rightarrow> None | e # es \<Rightarrow> Some e)"

definition queryChecked :: "form_state \<Rightarrow> string \<Rightarrow> element option" where
  "queryChecked st fieldName = find echecked (named st fieldName)"

text \<open>\<^verbatim>\<open>field && field.hasAttribute('required')\<close>\<close>

definition isRequired :: "element option \<Rightarrow> bool" where
  "isRequired field = (case field of None \<Rightarrow> False | Some e \<Rightarrow> erequired e)"

definition getFieldValue :: "form_state \<Rightarrow> string \<Rightarrow> string" where
  "getFieldValue st fieldName =
     (case querySelector st fieldName of
        None \<Rightarrow> []
      | Some field \<Rightarrow>
          if fieldName = ''socialSecurity'' then ssnActualValue (ssn st)
          else if etype field = ''radio'' then
            (case queryChecked st fieldName of Some checked \<Rightarrow> evalue checked | None \<Rightarrow> [])
          else if etype field = ''checkbox'' then
            (if echecked field then ''Yes'' else ''No'')
          else evalue field)"

section \<open>Rules of one field (\<^verbatim>\<open>validateSingleField\<close>)\<close>

text \<open>The character classes of the field patterns.\<close>

definition isFirstNameChar :: "char \<Rightarrow> bool" where
  "isFirstNameChar c = (isLetter c \<or> code c = 39 \<or> code c = 45)"

definition isLastNameChar :: "char \<Rightarrow> bool" where
  "isLastNameChar c = (isLetter c \<or> code c = 39 \<or> code c = 45 \<or> isSpace c \<or> isDigit c)"

definition isLetterOrSpace :: "char \<Rightarrow> bool" where
  "isLetterOrSpace c = (isLetter c \<or> isSpace c)"

definition isUserIdFirst :: "char \<Rightarrow> bool" where
  "isUserIdFirst c = (isLetter c \<or> code c = 95 \<or> code c = 45)"

definition isUserIdChar :: "char \<Rightarrow> bool" where
  "isUserIdChar c = (isAlnum c \<or> code c = 95 \<or> code c = 45)"

text \<open>\<^verbatim>\<open>[a-zA-Z0-9._%+\-]\<close> and \<^verbatim>\<open>[a-zA-Z0-9.\-]\<close>\<close>

definition isEmailLocal :: "char \<Rightarrow> bool" where
  "isEmailLocal c = (isAlnum c \<or> code c \<in> set [46, 95, 37, 43, 45])"

definition isEmailDomain :: "char \<Rightarrow> bool" where
  "isEmailDomain c = (isAlnum c \<or> code c = 46 \<or> code c = 45)"

text \<open>
  \<^verbatim>\<open>/^[a-zA-Z0-9._%+\-]+@[a-zA-Z0-9.\-]+\.[a-zA-Z]{2,}$/\<close>. The local part ends at the first
  character outside its class, which must be the at-sign; the last label is the longest
  run of letters at the end, at least two, and the character before it must be a dot with
  a non-empty domain before that.
\<close>

definition matchEmail :: "string \<Rightarrow> bool" where
  "matchEmail s =
     (takeWhile isEmailLocal s \<noteq> [] \<and>
      (case dropWhile isEmailLocal s of
         [] \<Rightarrow> False
       | a # rest \<Rightarrow>
           a = CHR ''@'' \<and> 2 \<le> length (takeWhile isLetter (rev rest)) \<and>
           (case dropWhile isLetter (rev rest) of
              [] \<Rightarrow> False
            | dot # domain \<Rightarrow>
                dot = CHR ''.'' \<and> domain \<noteq> [] \<and> list_all isEmailDomain domain)))"

text \<open>\<^verbatim>\<open>/^\(\d{3}\) \d{3}-\d{4}$/\<close>\<close>

fun matchPhone :: "string \<Rightarrow> bool" where
  "matchPhone [p, a1, a2, a3, q, sp, b1, b2, b3, h, c1, c2, c3, c4] =
     (p = CHR ''('' \<and> q = CHR '')'' \<and> sp = CHR '' '' \<and> h = CHR ''-'' \<and>
      list_all isDigit [a1, a2, a3, b1, b2, b3, c1, c2, c3, c4])"
| "matchPhone s = False"

text \<open>\<^verbatim>\<open>/^[A-Za-z_\-][A-Za-z0-9_\-]{4,29}$/\<close>\<close>

definition matchUserId :: "string \<Rightarrow> bool" where
  "matchUserId s =
     (case s of [] \<Rightarrow> False | c # cs \<Rightarrow> isUserIdFirst c \<and> matchesClass isUserIdChar 4 29 cs)"

definition validateSingleField :: "clock \<Rightarrow> form_state \<Rightarrow> string \<Rightarrow> string \<Rightarrow> string option" where
  "validateSingleField clk st fieldName value0 =
     (let field = querySelector st fieldName;
          value = (if fieldName = ''socialSecurity'' then ssnActualValue (ssn st) else value0);
          error = (if isRequired field \<and> value = [] then Some ''Required field is empty''
                   else None)
      in
      if fieldName = ''firstName'' then
        (if value \<noteq> [] \<and> \<not> matchesClass isFirstNameChar 1 30 value
         then Some ''Enter 1-30 characters, letters, apostrophes, and dashes only'' else error)
      else if fieldName = ''middleInitial'' then
        (if value \<noteq> [] \<and> \<not> matchesClass isLetter 0 1 value
         then Some ''Enter single letter only'' else error)
      else if fieldName = ''lastName'' then
        (if value \<noteq> [] \<and> \<not> matchesClass isLastNameChar 1 30 value
         then Some ''Enter 1-30 characters, letters, apostrophes, dashes, spaces, and numbers allowed''
         else error)
      else if fieldName = ''dateOfBirth'' then
        (if value \<noteq> [] then validateDateOfBirth clk value else error)
      else if fieldName = ''socialSecurity'' then
        (if value \<noteq> [] \<and> \<not> matchesClass isDigit 9 9 value
         then Some ''Must be exactly 9 digits'' else error)
      else if fieldName = ''gender'' \<or> fieldName = ''isVaccinated'' \<or> fieldName = ''hasInsurance'' then
        (if value = [] \<and> isRequired field
         then Some ''Required field - please select an option'' else error)
      else if fieldName = ''addressLine1'' then
        (if value \<noteq> [] \<and> (length value < 2 \<or> length value > 30)
         then Some ''Enter 2-30 characters'' else error)
      else if fieldName = ''addressLine2'' then
        (if value \<noteq> [] \<and> length value > 0 \<and> (length value < 2 \<or> length value > 30)
         then Some ''Must be 2-30 characters if entered'' else error)
      else if fieldName = ''city'' then
        (if value \<noteq> [] \<and> \<not> matchesClass isLetterOrSpace 2 30 value
         then Some ''Enter 2-30 characters, letters and spaces only'' else error)
      else if fieldName = ''state'' then
        (if value = [] then Some ''Please select a state'' else error)
      else if fieldName = ''zipCode'' then
        (if value \<noteq> [] \<and> \<not> matchesClass isDigit 5 5 value
         then Some ''Must be exactly 5 digits'' else error)
      else if fieldName = ''emailAddress'' then
        (if value \<noteq> [] \<and> \<not> matchEmail value
         then Some ''Enter valid email: name@domain.tld'' else error)
      else if fieldName = ''phoneNumber'' then
        (if value \<noteq> [] \<and> \<not> matchPhone value
         then Some ''Format: (XXX) XXX-XXXX'' else error)
      else if fieldName = ''emergencyContact'' then
        (if value \<noteq> [] \<and> \<not> list_all isLetterOrSpace value
         then Some ''Letters and spaces only'' else error)
      else if fieldName = ''emergencyPhone'' then
        (if value \<noteq> [] \<and> \<not> matchPhone value
         then Some ''Format: (XXX) XXX-XXXX'' else error)
      else if fieldName = ''insuranceProvider'' \<or> fieldName = ''physicianName''
              \<or> fieldName = ''pharmacyName'' then
        (if value \<noteq> [] \<and> \<not> list_all isLetterOrSpace value
         then Some ''Letters and spaces only'' else error)
      else if fieldName = ''policyNumber'' then
        (if value \<noteq> [] \<and> \<not> list_all isAlnum value
         then Some ''Alphanumeric characters only'' else error)
      else if fieldName = ''desiredUserID'' then
        (if value \<noteq> [] \<and> \<not> matchUserId value
         then Some ''5-30 characters, letters, numbers, underscore, dash - first character cannot be a number''
         else error)
      else if fieldName = ''password'' then
        (if value \<noteq> [] then
           (let userId = getFieldValue st ''desiredUserID'';
                firstName = getFieldValue st ''firstName'';
                lastName = getFieldValue st ''lastName'';
                passwordErrors = validatePassword value userId firstName lastName
            in if length passwordErrors > 0 then Some (joinWith ''; '' passwordErrors) else error)
         else error)
      else if fieldName = ''confirmPassword'' then
        (if value \<noteq> [] then
           (let password = getFieldValue st ''password''
            in if value \<noteq> password then Some ''Passwords do not match'' else error)
         else error)
      else error)"

section \<open>Error display and the counter (\<^verbatim>\<open>showFieldError\<close>, \<^verbatim>\<open>updateErrorCounter\<close>)\<close>

text \<open>A string or \<^verbatim>\<open>null\<close> used as a condition: true for a non-empty string only.\<close>

definition truthy :: "string option \<Rightarrow> bool" where
  "truthy m = (case m of None \<Rightarrow> False | Some s \<Rightarrow> s \<noteq> [])"

text \<open>
  The globals \<^verbatim>\<open>fieldTouched\<close> and \<^verbatim>\<open>validationErrors\<close> are plain objects \<^verbatim>\<open>{}\<close>. Reading
  a key that the script has not stored answers with what every object inherits: a
  function, or for \<^verbatim>\<open>__proto__\<close> the prototype object, under these names.
\<close>

definition inheritedKeys :: "string list" where
  "inheritedKeys =
     [''constructor'', ''toString'', ''toLocaleString'', ''valueOf'', ''hasOwnProperty'',
      ''isPrototypeOf'', ''propertyIsEnumerable'', ''__proto__'', ''__defineGetter__'',
      ''__defineSetter__'', ''__lookupGetter__'', ''__lookupSetter__'']"

text \<open>\<^verbatim>\<open>fieldTouched[f]\<close> used as a condition: the stored value where there is one, and
  true at an inherited name, since a function and an object count as true.\<close>

definition touched :: "form_state \<Rightarrow> string \<Rightarrow> bool" where
  "touched st fieldName =
     (case fieldTouched st fieldName of
        Some b \<Rightarrow> b
      | None \<Rightarrow> fieldName \<in> set inheritedKeys)"

text \<open>\<^verbatim>\<open>obj[k] = v\<close> and \<^verbatim>\<open>delete obj[k]\<close> on an object with its keys in insertion order.\<close>

fun objSet :: "string \<Rightarrow> string \<Rightarrow> (string \<times> string) list \<Rightarrow> (string \<times> string) list" where
  "objSet k v [] = [(k, v)]"
| "objSet k v ((k', v') # kvs) = (if k' = k then (k, v) # kvs else (k', v') # objSet k v kvs)"

definition objDelete :: "string \<Rightarrow> (string \<times> string) list \<Rightarrow> (string \<times> string) list" where
  "objDelete k kvs = filter (\<lambda>kv. fst kv \<noteq> k) kvs"

text \<open>\<^verbatim>\<open>validationErrors[k] = message\<close>: assigning a string to the key \<^verbatim>\<open>__proto__\<close> of a
  plain object stores nothing.\<close>

definition objAssign :: "string \<Rightarrow> string \<Rightarrow> (string \<times> string) list \<Rightarrow> (string \<times> string) list" where
  "objAssign k v kvs = (if k = ''__proto__'' then kvs else objSet k v kvs)"

definition requiredFields :: "string list" where
  "requiredFields =
     [''firstName'', ''lastName'', ''dateOfBirth'', ''socialSecurity'',
      ''gender'', ''addressLine1'', ''city'', ''state'', ''zipCode'',
      ''emailAddress'', ''phoneNumber'', ''isVaccinated'', ''hasInsurance'',
      ''desiredUserID'', ''password'', ''confirmPassword'']"

text \<open>The loop of \<^verbatim>\<open>areAllRequiredFieldsFilled\<close>, with its early \<^verbatim>\<open>return false\<close>.\<close>

fun requiredLoop :: "form_state \<Rightarrow> string list \<Rightarrow> bool" where
  "requiredLoop st [] = True"
| "requiredLoop st (fieldName # rest) =
     (let value = getFieldValue st fieldName
      in if value = [] \<or> trim value = [] then False else requiredLoop st rest)"

definition areAllRequiredFieldsFilled :: "form_state \<Rightarrow> bool" where
  "areAllRequiredFieldsFilled st = requiredLoop st requiredFields"

text \<open>\<^verbatim>\<open>Object.keys(validationErrors).filter(key => validationErrors[key]).length\<close>\<close>

definition errorCountOf :: "form_state \<Rightarrow> nat" where
  "errorCountOf st = length (filter (\<lambda>kv. snd kv \<noteq> []) (validationErrors st))"

definition counterMessage :: "nat \<Rightarrow> bool \<Rightarrow> counter_element" where
  "counterMessage errorCount allRequiredFilled =
     (if errorCount > 0 then
        \<lparr> counterText = showNat errorCount @ '' validation error''
                          @ (if errorCount \<noteq> 1 then ''s'' else []) @ '' remaining'',
          color = ''#d32f2f'', fontWeight = ''bold'' \<rparr>
      else if \<not> allRequiredFilled then
        \<lparr> counterText = ''Fill out all required fields and click VALIDATE to check for errors'',
          color = ''#666'', fontWeight = ''normal'' \<rparr>
      else
        \<lparr> counterText = ''All validations passed! You can now submit the form.'',
          color = ''#2e7d32'', fontWeight = ''bold'' \<rparr>)"

definition updateErrorCounter :: "form_state \<Rightarrow> form_state" where
  "updateErrorCounter st =
     (let errorCount = errorCountOf st;
          allRequiredFilled = areAllRequiredFieldsFilled st
      in st\<lparr> errorCounter :=
               (case errorCounter st of
                  None \<Rightarrow> None
                | Some counterElement \<Rightarrow> Some (counterMessage errorCount allRequiredFilled)),
             submitBtn :=
               (case submitBtn st of
                  None \<Rightarrow> None
                | Some d \<Rightarrow> Some (if errorCount = 0 \<and> allRequiredFilled
                                  then ''inline-block'' else ''none'')),
             validateBtn :=
               (case validateBtn st of
                  None \<Rightarrow> None
                | Some d \<Rightarrow> Some (if errorCount = 0 \<and> allRequiredFilled
                                  then ''none'' else ''inline-block'')) \<rparr>)"

text \<open>\<^verbatim>\<open>field.classList.add('has-error')\<close> and \<^verbatim>\<open>remove\<close>, on the first element of that name.\<close>

definition setHasError :: "string \<Rightarrow> bool \<Rightarrow> form_state \<Rightarrow> form_state" where
  "setHasError fieldName b st =
     st\<lparr> named := (named st)(fieldName :=
            (case named st fieldName of [] \<Rightarrow> [] | e # es \<Rightarrow> e\<lparr>hasError := b\<rparr> # es)) \<rparr>"

definition showFieldError :: "form_state \<Rightarrow> string \<Rightarrow> string option \<Rightarrow> form_state" where
  "showFieldError st fieldName errorMessage =
     (case querySelector st fieldName of
        None \<Rightarrow> st
      | Some field \<Rightarrow>
          if \<not> touched st fieldName \<and> \<not> touched st ''__validateAll__'' then st
          else
            (let errorId = ''error-'' @ fieldName;
                 errorElement =
                   (case errorElements st errorId of
                      Some e \<Rightarrow> e
                    | None \<Rightarrow> \<lparr> textContent = [], display = [] \<rparr>);
                 st' =
                   (if truthy errorMessage then
                      (setHasError fieldName True st)
                        \<lparr> errorElements := (errorElements st)(errorId \<mapsto>
                             errorElement\<lparr> textContent := the errorMessage, display := ''block'' \<rparr>),
                          validationErrors := objAssign fieldName (the errorMessage) (validationErrors st) \<rparr>
                    else
                      (setHasError fieldName False st)
                        \<lparr> errorElements := (errorElements st)(errorId \<mapsto>
                             errorElement\<lparr> display := ''none'' \<rparr>),
                          validationErrors := objDelete fieldName (validationErrors st) \<rparr>)
             in updateErrorCounter st'))"

text \<open>The listener that \<^verbatim>\<open>addRealtimeValidation\<close> installs on a field (input, change, blur).\<close>

definition fieldEvent :: "clock \<Rightarrow> form_state \<Rightarrow> string \<Rightarrow> form_state" where
  "fieldEvent clk st fieldName =
     (let st1 = st\<lparr> fieldTouched := (fieldTouched st)(fieldName \<mapsto> True) \<rparr>;
          value = getFieldValue st1 fieldName;
          error = validateSingleField clk st1 fieldName value
      in showFieldError st1 fieldName error)"

section \<open>Submission (\<^verbatim>\<open>validateForm\<close>)\<close>

text \<open>The array \<^verbatim>\<open>errors\<close> of \<^verbatim>\<open>validateForm\<close> when it reaches \<^verbatim>\<open>if (errors.length > 0)\<close>.\<close>

definition validateFormErrors :: "clock \<Rightarrow> form_state \<Rightarrow> string list" where
  "validateFormErrors clk st =
     (let errors = [];
          dobError = validateDateOfBirth clk (getFieldValue st ''dateOfBirth'');
          errors = (if truthy dobError then errors @ [''Date of Birth: '' @ the dobError]
                    else errors);
          addr2 = getFieldValue st ''addressLine2'';
          errors = (if addr2 \<noteq> [] \<and> length addr2 > 0 \<and> length addr2 < 2
                    then errors @ [''Address Line 2: Must be 2-30 characters if entered'']
                    else errors);
          password = getFieldValue st ''password'';
          userId = getFieldValue st ''desiredUserID'';
          firstName = getFieldValue st ''firstName'';
          lastName = getFieldValue st ''lastName'';
          passwordErrors = validatePassword password userId firstName lastName;
          errors = (if length passwordErrors > 0
                    then errors @ [''Password: '' @ joinWith '', '' passwordErrors]
                    else errors);
          confirmPassword = getFieldValue st ''confirmPassword'';
          errors = (if password \<noteq> confirmPassword
                    then errors @ [''Passwords do not match''] else errors)
      in errors)"

text \<open>
  What a call \<^verbatim>\<open>validateForm(event)\<close> does: the value it returns, whether it called
  \<^verbatim>\<open>event.preventDefault()\<close>, and the text of the \<^verbatim>\<open>alert\<close> it raised, if any.
\<close>

record submit_outcome =
  returned :: bool
  defaultPrevented :: bool
  alerted :: "string option"

definition validateForm :: "clock \<Rightarrow> form_state \<Rightarrow> submit_outcome" where
  "validateForm clk st =
     (let errors = validateFormErrors clk st
      in if length errors > 0 then
           \<lparr> returned = False, defaultPrevented = True,
             alerted = Some (''Please correct the following errors:'' @ [CHR 0x0A, CHR 0x0A]
                             @ joinWith [CHR 0x0A] errors) \<rparr>
         else \<lparr> returned = True, defaultPrevented = False, alerted = None \<rparr>)"

section \<open>Invariants and auxiliary notions of the proofs\<close>

text \<open>The value of \<^verbatim>\<open>ssnActualValue\<close> after \<^verbatim>\<open>formatSSN\<close>, as a function of the state before.\<close>

definition ssnNext :: "ssn_state \<Rightarrow> string" where
  "ssnNext s =
     (if length (inputValue s) > lastSSNMaskedLength s then
        (if list_ex isDigit (charAt (inputValue s) (length (inputValue s) - 1))
            \<and> length (ssnActualValue s) < 9
         then ssnActualValue s @ charAt (inputValue s) (length (inputValue s) - 1)
         else ssnActualValue s)
      else if length (inputValue s) < lastSSNMaskedLength s then slice_0_m1 (ssnActualValue s)
      else ssnActualValue s)"

text \<open>What holds of the masking state between two events.\<close>

definition ssn_inv :: "ssn_state \<Rightarrow> bool" where
  "ssn_inv s \<longleftrightarrow>
     list_all isDigit (ssnActualValue s) \<and> length (ssnActualValue s) \<le> 9 \<and>
     inputValue s = maskOfLength (length (ssnActualValue s)) \<and>
     lastSSNMaskedLength s = length (inputValue s)"

text \<open>The day number of today in local time.\<close>

definition localDay :: "clock \<Rightarrow> int" where
  "localDay c = (now c + offsetAtUTC c (now c)) div msPerDay"

text \<open>
  A clock of a running host: the current time is a time value from 1970 on, and local
  time is at every moment less than a day away from UTC.
\<close>

definition clockOk :: "clock \<Rightarrow> bool" where
  "clockOk c \<longleftrightarrow>
     0 \<le> now c \<and> now c \<le> 8640000000000000 \<and>
     (\<forall>t. \<bar>offsetAtUTC c t\<bar> < msPerDay) \<and> (\<forall>t. \<bar>offsetAtLocal c t\<bar> < msPerDay)"

text \<open>The day number of the date \<^verbatim>\<open>age120\<close> is built from: today's calendar day, 120 years
  back.\<close>

definition day120 :: "clock \<Rightarrow> int" where
  "day120 c = MakeDay (getFullYear c (now c) - 120) (getMonth c (now c)) (getDate c (now c))"

text \<open>The value that \<^verbatim>\<open>validateSingleField\<close> examines: for the identification number the
  stored digits, whatever value is passed.\<close>

definition effectiveValue :: "form_state \<Rightarrow> string \<Rightarrow> string \<Rightarrow> string" where
  "effectiveValue st fieldName value0 =
     (if fieldName = ''socialSecurity'' then ssnActualValue (ssn st) else value0)"

text \<open>The fields of the case \<^verbatim>\<open>'gender'\<close>, \<^verbatim>\<open>'isVaccinated'\<close>, \<^verbatim>\<open>'hasInsurance'\<close>.\<close>

definition radioFields :: "string list" where
  "radioFields = [''gender'', ''isVaccinated'', ''hasInsurance'']"

text \<open>The three texts of the counter.\<close>

definition promptText :: string where
  "promptText = ''Fill out all required fields and click VALIDATE to check for errors''"

definition allClearText :: string where
  "allClearText = ''All validations passed! You can now submit the form.''"

definition remainingText :: "nat \<Rightarrow> string" where
  "remainingText n = showNat n @ '' validation error'' @ (if n \<noteq> 1 then ''s'' else []) @ '' remaining''"

section \<open>Example inputs\<close>

text \<open>A clock: 2025-11-02, 10:23:20 UTC, on a host that is eight hours west of UTC all year;
  there it is 02:23 on 2 November.\<close>

definition exampleClock :: clock where
  "exampleClock =
     \<lparr> now = 1762079000000, offsetAtUTC = (\<lambda>t. - 28800000),
       offsetAtLocal = (\<lambda>t. - 28800000), parseOther = (\<lambda>s. None) \<rparr>"

text \<open>The same host in the evening: 2025-11-03, 04:00 UTC, there 20:00 on 2 November.\<close>

definition westEveningClock :: clock where
  "westEveningClock = exampleClock\<lparr> now := 1762142400000 \<rparr>"

text \<open>A host ten hours east of UTC all year in the morning: 2025-11-01, 20:00 UTC, there
  06:00 on 2 November.\<close>

definition eastMorningClock :: clock where
  "eastMorningClock =
     \<lparr> now = 1762027200000, offsetAtUTC = (\<lambda>t. 36000000),
       offsetAtLocal = (\<lambda>t. 36000000), parseOther = (\<lambda>s. None) \<rparr>"

text \<open>A host whose rules change the offset: one hour west of UTC until the end of 1911 and
  on UTC from then on; 2025-11-02, 10:23:20 UTC.\<close>

definition shiftingClock :: clock where
  "shiftingClock =
     \<lparr> now = 1762079000000,
       offsetAtUTC = (\<lambda>t. if t < - 1830384000000 then - 3600000 else 0),
       offsetAtLocal = (\<lambda>t. if t < - 1830384000000 then - 3600000 else 0),
       parseOther = (\<lambda>s. None) \<rparr>"

text \<open>Elements of a page.\<close>

definition mkInput :: "string \<Rightarrow> string \<Rightarrow> bool \<Rightarrow> element" where
  "mkInput t v r = \<lparr> etype = t, evalue = v, echecked = False, erequired = r, hasError = False \<rparr>"

definition mkRadio :: "string \<Rightarrow> bool \<Rightarrow> bool \<Rightarrow> element" where
  "mkRadio v c r = \<lparr> etype = ''radio'', evalue = v, echecked = c, erequired = r, hasError = False \<rparr>"

text \<open>A page before any interaction: a wrong first name, and the required e-mail, state and
  gender left empty.\<close>

definition exampleForm :: form_state where
  "exampleForm =
     \<lparr> named = (\<lambda>f. [])(''firstName'' := [mkInput ''text'' ''123'' True],
                ''emailAddress'' := [mkInput ''text'' [] True],
                ''state'' := [mkInput ''select-one'' [] True],
                ''gender'' := [mkInput ''radio'' ''Male'' True, mkInput ''radio'' ''Female'' True],
                ''addressLine2'' := [mkInput ''text'' [] False],
                ''dateOfBirth'' := [mkInput ''date'' ''1990-01-01'' True],
                ''password'' := [mkInput ''password'' ''Abcdef1!'' True],
                ''confirmPassword'' := [mkInput ''password'' ''Abcdef1!'' True]),
       errorElements = (\<lambda>i. None),
       errorCounter = Some \<lparr> counterText = [], color = [], fontWeight = [] \<rparr>,
       submitBtn = Some ''none'', validateBtn = Some [],
       validationErrors = [], fieldTouched = (\<lambda>f. None), ssn = ssn_init \<rparr>"

text \<open>The same page with a state selector that is not marked required.\<close>

definition optionalStateForm :: form_state where
  "optionalStateForm =
     exampleForm\<lparr> named := (named exampleForm)(''state'' := [mkInput ''select-one'' [] False]) \<rparr>"

text \<open>A page whose password is \<^verbatim>\<open>abcdefgh\<close>, the identity fields absent.\<close>

definition pwForm :: form_state where
  "pwForm =
     exampleForm\<lparr> named := (\<lambda>f. [])(''password'' := [mkInput ''password'' ''abcdefgh'' True],
                                  ''confirmPassword'' := [mkInput ''password'' ''abcdefgh'' True]) \<rparr>"

text \<open>A page filled in correctly, all sixteen required fields.\<close>

definition filledForm :: form_state where
  "filledForm =
     \<lparr> named = (\<lambda>f. [])(''firstName'' := [mkInput ''text'' ''Ann'' True],
                ''lastName'' := [mkInput ''text'' ''Lee'' True],
                ''dateOfBirth'' := [mkInput ''date'' ''1990-01-01'' True],
                ''socialSecurity'' := [mkInput ''text'' ''XXX-XX-XXXX'' True],
                ''gender'' := [mkRadio ''Male'' False True, mkRadio ''Female'' True True],
                ''addressLine1'' := [mkInput ''text'' ''1 Main St'' True],
                ''addressLine2'' := [mkInput ''text'' [] False],
                ''city'' := [mkInput ''text'' ''Houston'' True],
                ''state'' := [mkInput ''select-one'' ''TX'' True],
                ''zipCode'' := [mkInput ''text'' ''77001'' True],
                ''emailAddress'' := [mkInput ''text'' ''ann@example.com'' True],
                ''phoneNumber'' := [mkInput ''tel'' ''(713) 555-0100'' True],
                ''isVaccinated'' := [mkRadio ''Yes'' True True, mkRadio ''No'' False True],
                ''hasInsurance'' := [mkRadio ''Yes'' False True, mkRadio ''No'' True True],
                ''desiredUserID'' := [mkInput ''text'' ''annlee1'' True],
                ''password'' := [mkInput ''password'' ''Sunny#Day9'' True],
                ''confirmPassword'' := [mkInput ''password'' ''Sunny#Day9'' True]),
       errorElements = (\<lambda>i. None),
       errorCounter = Some \<lparr> counterText = [], color = [], fontWeight = [] \<rparr>,
       submitBtn = Some ''none'', validateBtn = Some [],
       validationErrors = [], fieldTouched = (\<lambda>f. None),
       ssn = \<lparr> inputValue = ''XXX-XX-XXXX'', ssnActualValue = ''123456789'',
               lastSSNMaskedLength = 11 \<rparr> \<rparr>"

text \<open>The filled page with the first name \<^verbatim>\<open>123\<close>, after the input event on that field.\<close>

definition badNameForm :: form_state where
  "badNameForm =
     fieldEvent exampleClock
       (filledForm\<lparr> named := (named filledForm)(''firstName'' := [mkInput ''text'' ''123'' True]) \<rparr>)
       ''firstName''"

section \<open>Strings and patterns: proofs\<close>

lemma not_local_at: "\<not> isEmailLocal (CHR ''@'')"
  by (simp add: isEmailLocal_def isAlnum_def isLetter_def isUpper_def isLower_def isDigit_def code_def)

lemma not_letter_dot: "\<not> isLetter (CHR ''.'')"
  by (simp add: isLetter_def isUpper_def isLower_def code_def)

lemma takeWhile_stop:
  "list_all P u \<Longrightarrow> \<not> P c \<Longrightarrow>
   takeWhile P (u @ c # v) = u \<and> dropWhile P (u @ c # v) = c # v"
  by (simp add: list_all_iff)

text \<open>
  \<open>matchEmail\<close> accepts the language of the e-mail pattern: a non-empty local part, an
  at-sign, a non-empty domain, a dot, and at least two letters.
\<close>

lemma matchEmail_iff:
  "matchEmail s \<longleftrightarrow>
     (\<exists>l d t. s = l @ ''@'' @ d @ ''.'' @ t \<and>
        l \<noteq> [] \<and> list_all isEmailLocal l \<and>
        d \<noteq> [] \<and> list_all isEmailDomain d \<and>
        2 \<le> length t \<and> list_all isLetter t)"
proof
  assume m: "matchEmail s"
  let ?l = "takeWhile isEmailLocal s"
  from m obtain rest where r: "dropWhile isEmailLocal s = CHR ''@'' # rest"
    and t2: "2 \<le> length (takeWhile isLetter (rev rest))"
    and dd: "case dropWhile isLetter (rev rest) of [] \<Rightarrow> False
             | dot # domain \<Rightarrow> dot = CHR ''.'' \<and> domain \<noteq> [] \<and> list_all isEmailDomain domain"
    by (auto simp: matchEmail_def split: list.splits)
  from dd obtain dm where d: "dropWhile isLetter (rev rest) = CHR ''.'' # dm"
    and dne: "dm \<noteq> []" and dall: "list_all isEmailDomain dm"
    by (auto split: list.splits)
  let ?t = "rev (takeWhile isLetter (rev rest))"
  have "rev rest = takeWhile isLetter (rev rest) @ CHR ''.'' # dm"
    using takeWhile_dropWhile_id[of isLetter "rev rest"] d by simp
  then have "rest = rev (takeWhile isLetter (rev rest) @ CHR ''.'' # dm)"
    by (metis rev_rev_ident)
  then have rest: "rest = rev dm @ ''.'' @ ?t" by simp
  have s: "s = ?l @ ''@'' @ rev dm @ ''.'' @ ?t"
    using takeWhile_dropWhile_id[of isEmailLocal s] r rest by simp
  have lne: "?l \<noteq> []" using m by (simp add: matchEmail_def)
  have lall: "list_all isEmailLocal ?l" by (auto simp: list_all_iff dest: set_takeWhileD)
  have tall: "list_all isLetter ?t" by (auto simp: list_all_iff dest: set_takeWhileD)
  show "\<exists>l d t. s = l @ ''@'' @ d @ ''.'' @ t \<and>
        l \<noteq> [] \<and> list_all isEmailLocal l \<and>
        d \<noteq> [] \<and> list_all isEmailDomain d \<and>
        2 \<le> length t \<and> list_all isLetter t"
    using s lne lall dne dall t2 tall
    by (intro exI[of _ ?l] exI[of _ "rev dm"] exI[of _ ?t]) (simp add: list_all_iff)
next
  assume "\<exists>l d t. s = l @ ''@'' @ d @ ''.'' @ t \<and>
        l \<noteq> [] \<and> list_all isEmailLocal l \<and>
        d \<noteq> [] \<and> list_all isEmailDomain d \<and>
        2 \<le> length t \<and> list_all isLetter t"
  then obtain l d t where s: "s = l @ ''@'' @ d @ ''.'' @ t"
    and l: "l \<noteq> []" "list_all isEmailLocal l"
    and d: "d \<noteq> []" "list_all isEmailDomain d"
    and t: "2 \<le> length t" "list_all isLetter t" by blast
  have tw: "takeWhile isEmailLocal s = l"
    and dw: "dropWhile isEmailLocal s = CHR ''@'' # (d @ ''.'' @ t)"
    unfolding s using takeWhile_stop[OF l(2) not_local_at, of "d @ ''.'' @ t"] by simp_all
  have rr: "rev (d @ ''.'' @ t) = rev t @ CHR ''.'' # rev d" by simp
  have rt: "list_all isLetter (rev t)" using t(2) by (simp add: list_all_iff)
  have tw2: "takeWhile isLetter (rev t @ CHR ''.'' # rev d) = rev t"
    and dw2: "dropWhile isLetter (rev t @ CHR ''.'' # rev d) = CHR ''.'' # rev d"
    using takeWhile_stop[OF rt not_letter_dot, of "rev d"] by blast+
  show "matchEmail s"
    unfolding matchEmail_def tw dw list.case rr tw2 dw2
    using l d t by (simp add: list_all_iff)
qed


text \<open>\<open>includesStr\<close> is the substring test.\<close>

lemma startsWith_iff: "startsWith s t \<longleftrightarrow> (\<exists>q. s = t @ q)"
  by (induction s t rule: startsWith.induct) auto

lemma includesStr_iff: "includesStr s t \<longleftrightarrow> (\<exists>p q. s = p @ t @ q)"
proof (induction s)
  case Nil
  then show ?case by simp
next
  case (Cons a s)
  show ?case
  proof
    assume "includesStr (a # s) t"
    then consider "startsWith (a # s) t" | "includesStr s t" by auto
    then show "\<exists>p q. a # s = p @ t @ q"
    proof cases
      case 1
      then obtain q where "a # s = t @ q" by (auto simp: startsWith_iff)
      then have "a # s = [] @ t @ q" by simp
      then show ?thesis by blast
    next
      case 2
      with Cons obtain p q where "s = p @ t @ q" by blast
      then have "a # s = (a # p) @ t @ q" by simp
      then show ?thesis by blast
    qed
  next
    assume "\<exists>p q. a # s = p @ t @ q"
    then obtain p q where e: "a # s = p @ t @ q" by blast
    show "includesStr (a # s) t"
    proof (cases p)
      case Nil
      with e have "startsWith (a # s) t" by (auto simp: startsWith_iff)
      then show ?thesis by simp
    next
      case (Cons b p')
      with e have "s = p' @ t @ q" by simp
      with Cons.IH have "includesStr s t" by blast
      then show ?thesis by simp
    qed
  qed
qed

section \<open>The masking state machine: proofs\<close>


text \<open>The mask loop computes \<open>maskOfLength\<close>.\<close>

lemma maskLoop_concat:
  "maskLoop i n acc = acc @ concat (map (\<lambda>i. if i = 2 \<or> i = 4 then ''X-'' else ''X'') [i..<n])"
proof (induction i n acc rule: maskLoop.induct)
  case (1 i n acc)
  show ?case
  proof (cases "i < n")
    case True
    then have u: "[i..<n] = i # [i + 1..<n]" by (simp add: upt_conv_Cons)
    have "maskLoop i n acc = maskLoop (i + 1) n ((acc @ ''X'') @ (if i = 2 \<or> i = 4 then ''-'' else []))"
      using True by (subst maskLoop.simps) simp
    also have "\<dots> = ((acc @ ''X'') @ (if i = 2 \<or> i = 4 then ''-'' else [])) @ concat (map (\<lambda>i. if i = 2 \<or> i = 4 then ''X-'' else ''X'') [i + 1..<n])"
      using 1 True by simp
    finally show ?thesis unfolding u by simp
  next
    case False
    then show ?thesis by (subst maskLoop.simps) simp
  qed
qed

lemma maskLoop_maskOfLength: "maskLoop 0 n [] = maskOfLength n"
  by (simp add: maskLoop_concat maskOfLength_def)

lemma maskOfLength_0: "maskOfLength 0 = []"
  by (simp add: maskOfLength_def)

lemma maskOfLength_Suc:
  "maskOfLength (Suc n) = maskOfLength n @ (if n = 2 \<or> n = 4 then ''X-'' else ''X'')"
  by (simp add: maskOfLength_def)

lemma length_maskOfLength:
  "length (maskOfLength n) = n + (if 2 < n then 1 else 0) + (if 4 < n then 1 else 0)"
  by (induction n) (auto simp: maskOfLength_Suc maskOfLength_0)

lemma set_maskOfLength: "set (maskOfLength n) \<subseteq> {CHR ''X'', CHR ''-''}"
  by (induction n) (auto simp: maskOfLength_Suc maskOfLength_0)

lemma hd_maskOfLength: "0 < n \<Longrightarrow> \<exists>r. maskOfLength n = CHR ''X'' # r"
proof (induction n)
  case 0
  then show ?case by simp
next
  case (Suc n)
  show ?case
  proof (cases "n = 0")
    case True
    then show ?thesis by (simp add: maskOfLength_Suc maskOfLength_0)
  next
    case False
    with Suc obtain r where "maskOfLength n = CHR ''X'' # r" by auto
    then show ?thesis by (simp add: maskOfLength_Suc)
  qed
qed

text \<open>The three fields after \<^verbatim>\<open>formatSSN\<close>, and the invariant.\<close>

lemma formatSSN_fields:
  "ssnActualValue (formatSSN s) = ssnNext s"
  "inputValue (formatSSN s) = maskOfLength (length (ssnNext s))"
  "lastSSNMaskedLength (formatSSN s) = length (maskOfLength (length (ssnNext s)))"
  by (simp_all add: formatSSN_def ssnNext_def Let_def maskLoop_maskOfLength)

lemma charAt_digits: "list_ex isDigit (charAt v i) \<Longrightarrow> list_all isDigit (charAt v i)"
  by (auto simp: charAt_def split: if_splits)

lemma ssnNext_digits:
  "list_all isDigit (ssnActualValue s) \<Longrightarrow> length (ssnActualValue s) \<le> 9 \<Longrightarrow>
   list_all isDigit (ssnNext s) \<and> length (ssnNext s) \<le> 9"
  by (auto simp: ssnNext_def slice_0_m1_def charAt_def list_all_iff dest: in_set_takeD split: if_splits)

lemma ssn_inv_init: "ssn_inv ssn_init"
  by (simp add: ssn_inv_def ssn_init_def maskOfLength_0)

lemma ssn_inv_ssnInput: "ssn_inv s \<Longrightarrow> ssn_inv (ssnInput v s)"
  unfolding ssnInput_def ssn_inv_def formatSSN_fields
  using ssnNext_digits[of "s\<lparr>inputValue := v\<rparr>"] by simp

lemma ssn_inv_ssnRun: "ssn_inv s \<Longrightarrow> ssn_inv (ssnRun vs s)"
  by (induction vs arbitrary: s) (auto simp: ssn_inv_ssnInput)

lemma typeChar_digit:
  assumes "ssn_inv s" "isDigit c"
  shows "ssnActualValue (typeChar c s) = (if length (ssnActualValue s) < 9 then ssnActualValue s @ [c] else ssnActualValue s)"
  using assms by (simp add: typeChar_def ssnInput_def formatSSN_fields ssnNext_def ssn_inv_def charAt_def)

lemma ssn_inv_typeChar: "ssn_inv s \<Longrightarrow> ssn_inv (typeChar c s)"
  by (simp add: typeChar_def ssn_inv_ssnInput)

lemma typeChars_digits:
  "ssn_inv s \<Longrightarrow> list_all isDigit ds \<Longrightarrow>
   ssnActualValue (typeChars ds s) = take 9 (ssnActualValue s @ ds)"
proof (induction ds arbitrary: s)
  case Nil
  then show ?case by (simp add: ssn_inv_def)
next
  case (Cons d ds)
  have "ssnActualValue (typeChars ds (typeChar d s)) = take 9 (ssnActualValue (typeChar d s) @ ds)"
    using Cons by (simp add: ssn_inv_typeChar)
  then show ?case using Cons.prems by (auto simp: typeChar_digit ssn_inv_def take_Cons')
qed


lemma reach_inv: "ssn_inv (ssnRun vs ssn_init)"
  by (simp add: ssn_inv_ssnRun ssn_inv_init)

lemma typeChars_inv: "ssn_inv s \<Longrightarrow> ssn_inv (typeChars ds s)"
  by (induction ds arbitrary: s) (auto simp: ssn_inv_typeChar)

text \<open>
  Claim C1. The user types the digits \<open>ds\<close>, at most nine, one at a time at the end of the
  field, starting from the empty state. After each of the events (after the first \<open>k\<close> of
  them, for every \<open>k\<close>) \<^verbatim>\<open>ssnActualValue\<close> is exactly the digits typed so far, whatever
  the mask shows. And in every state the handler can reach in which \<^verbatim>\<open>ssnActualValue\<close>
  already has nine digits, typing one more character leaves it as it is.
\<close>

theorem formatSSN_typed_digits:
  assumes "list_all isDigit ds" and "length ds \<le> 9" and "k \<le> length ds"
  shows "ssnActualValue (typeChars (take k ds) ssn_init) = take k ds \<and>
         (length (ssnActualValue (ssnRun vs ssn_init)) = 9 \<longrightarrow>
            ssnActualValue (typeChar d (ssnRun vs ssn_init)) = ssnActualValue (ssnRun vs ssn_init))"
proof
  have "list_all isDigit (take k ds)"
    using assms(1) by (auto simp: list_all_iff dest: in_set_takeD)
  then have "ssnActualValue (typeChars (take k ds) ssn_init) = take 9 (ssnActualValue ssn_init @ take k ds)"
    by (rule typeChars_digits[OF ssn_inv_init])
  then show "ssnActualValue (typeChars (take k ds) ssn_init) = take k ds"
    using assms(2,3) by (simp add: ssn_init_def)
next
  let ?s = "ssnRun vs ssn_init"
  have inv: "ssn_inv ?s" by (rule reach_inv)
  show "length (ssnActualValue ?s) = 9 \<longrightarrow> ssnActualValue (typeChar d ?s) = ssnActualValue ?s"
    using inv
    by (simp add: typeChar_def ssnInput_def formatSSN_fields ssnNext_def ssn_inv_def charAt_def)
qed

lemma isDigit_123456789: "list_all isDigit ''123456789''"
  by (simp add: isDigit_def code_def)

lemma run9: "ssnActualValue (ssnRun [''1'', ''X2'', ''XX3'', ''XXX-4'', ''XXX-X5'', ''XXX-XX-6'', ''XXX-XX-X7'', ''XXX-XX-XX8'', ''XXX-XX-XXX9''] ssn_init) = ''123456789''"
  by code_simp

theorem formatSSN_typed_digits_witness:
  "list_all isDigit ''123456789'' \<and> length ''123456789'' \<le> 9 \<and> (9::nat) \<le> length ''123456789'' \<and>
   ssnActualValue (typeChars (take 9 ''123456789'') ssn_init) = take 9 ''123456789'' \<and>
   length (ssnActualValue (ssnRun [''1'', ''X2'', ''XX3'', ''XXX-4'', ''XXX-X5'', ''XXX-XX-6'', ''XXX-XX-X7'', ''XXX-XX-XX8'', ''XXX-XX-XXX9''] ssn_init)) = 9 \<and>
   ssnActualValue (typeChar (CHR ''0'') (ssnRun [''1'', ''X2'', ''XX3'', ''XXX-4'', ''XXX-X5'', ''XXX-XX-6'', ''XXX-XX-X7'', ''XXX-XX-XX8'', ''XXX-XX-XXX9''] ssn_init)) = ''123456789''"
proof -
  let ?vs = "[''1'', ''X2'', ''XX3'', ''XXX-4'', ''XXX-X5'', ''XXX-XX-6'', ''XXX-XX-X7'', ''XXX-XX-XX8'', ''XXX-XX-XXX9'']"
  have h1: "list_all isDigit ''123456789''" by (rule isDigit_123456789)
  have h2: "length ''123456789'' \<le> 9" by simp
  have h3: "(9::nat) \<le> length ''123456789''" by simp
  have h4: "length (ssnActualValue (ssnRun ?vs ssn_init)) = 9" by (simp only: run9) simp
  note t = formatSSN_typed_digits[OF h1 h2 h3, of ?vs "CHR ''0''"]
  from t have a: "ssnActualValue (typeChars (take 9 ''123456789'') ssn_init) = take 9 ''123456789''"
    by (rule conjunct1)
  from t h4 have "ssnActualValue (typeChar (CHR ''0'') (ssnRun ?vs ssn_init)) = ssnActualValue (ssnRun ?vs ssn_init)"
    by blast
  then have b: "ssnActualValue (typeChar (CHR ''0'') (ssnRun ?vs ssn_init)) = ''123456789''"
    by (simp only: run9)
  show ?thesis by (intro conjI h1 h2 h3 a h4 b)
qed

text \<open>
  Claim C5. In a state reached by any sequence of events, an event in which the field's
  text \<open>v\<close> is shorter than the mask last written (whatever \<open>v\<close> is, so wherever the
  user edited) removes exactly one digit from \<^verbatim>\<open>ssnActualValue\<close>, the last one.
\<close>

theorem formatSSN_delete_removes_last:
  assumes "s = ssnRun vs ssn_init" and "length v < lastSSNMaskedLength s"
  shows "ssnActualValue s \<noteq> [] \<and>
         ssnActualValue (ssnInput v s) = butlast (ssnActualValue s) \<and>
         length (ssnActualValue (ssnInput v s)) + 1 = length (ssnActualValue s)"
proof -
  have inv: "ssn_inv s" unfolding assms(1) by (rule reach_inv)
  have ne: "ssnActualValue s \<noteq> []"
  proof
    assume "ssnActualValue s = []"
    with inv have "lastSSNMaskedLength s = 0" by (simp add: ssn_inv_def maskOfLength_0)
    with assms(2) show False by simp
  qed
  have "ssnActualValue (ssnInput v s) = slice_0_m1 (ssnActualValue s)"
    using assms(2) by (simp add: ssnInput_def formatSSN_fields ssnNext_def)
  then have eq: "ssnActualValue (ssnInput v s) = butlast (ssnActualValue s)"
    by (simp add: slice_0_m1_def butlast_conv_take)
  from ne eq show ?thesis by simp
qed

theorem formatSSN_delete_removes_last_witness:
  "length ''XX-'' < lastSSNMaskedLength (ssnRun [''1'', ''X2'', ''XX3''] ssn_init) \<and>
   ssnActualValue (ssnRun [''1'', ''X2'', ''XX3''] ssn_init) = ''123'' \<and>
   ssnActualValue (ssnInput ''XX-'' (ssnRun [''1'', ''X2'', ''XX3''] ssn_init)) = ''12''"
proof -
  let ?s = "ssnRun [''1'', ''X2'', ''XX3''] ssn_init"
  have h: "length ''XX-'' < lastSSNMaskedLength ?s" by code_simp
  have v: "ssnActualValue ?s = ''123''" by code_simp
  from formatSSN_delete_removes_last[OF refl h]
  have "ssnActualValue (ssnInput ''XX-'' ?s) = butlast (ssnActualValue ?s)" by blast
  then have r: "ssnActualValue (ssnInput ''XX-'' ?s) = ''12''" by (simp only: v) simp
  show ?thesis by (intro conjI h v r)
qed


lemma count_X_maskOfLength: "length (filter (\<lambda>c. c = CHR ''X'') (maskOfLength n)) = n"
  by (induction n) (auto simp: maskOfLength_Suc maskOfLength_0)

lemma maskOfLength_9: "maskOfLength 9 = ''XXX-XX-XXXX''"
  by code_simp

text \<open>
  Claim C6. After every call of \<^verbatim>\<open>formatSSN\<close> the text written back to the field is
  \<open>maskOfLength\<close> of the number of stored digits, a function of that number alone: one
  \<open>X\<close> for each digit, and a dash after the digits of index 2 and 4, so groups of three,
  two and four; the remembered length is the length of that text. The ten masks are
  listed.
\<close>

theorem formatSSN_display_from_length:
  "inputValue (formatSSN s) = maskOfLength (length (ssnActualValue (formatSSN s))) \<and>
   lastSSNMaskedLength (formatSSN s) = length (inputValue (formatSSN s)) \<and>
   length (filter (\<lambda>c. c = CHR ''X'') (inputValue (formatSSN s))) = length (ssnActualValue (formatSSN s)) \<and>
   maskOfLength 0 = [] \<and> maskOfLength 1 = ''X'' \<and> maskOfLength 2 = ''XX'' \<and>
   maskOfLength 3 = ''XXX-'' \<and> maskOfLength 4 = ''XXX-X'' \<and> maskOfLength 5 = ''XXX-XX-'' \<and>
   maskOfLength 6 = ''XXX-XX-X'' \<and> maskOfLength 7 = ''XXX-XX-XX'' \<and>
   maskOfLength 8 = ''XXX-XX-XXX'' \<and> maskOfLength 9 = ''XXX-XX-XXXX''"
proof -
  have a: "inputValue (formatSSN s) = maskOfLength (length (ssnActualValue (formatSSN s)))"
    by (simp add: formatSSN_fields)
  have b: "lastSSNMaskedLength (formatSSN s) = length (inputValue (formatSSN s))"
    by (simp add: formatSSN_fields)
  have c: "length (filter (\<lambda>c. c = CHR ''X'') (inputValue (formatSSN s))) = length (ssnActualValue (formatSSN s))"
    by (simp only: a count_X_maskOfLength)
  have t: "maskOfLength 0 = []" "maskOfLength 1 = ''X''" "maskOfLength 2 = ''XX''"
   "maskOfLength 3 = ''XXX-''" "maskOfLength 4 = ''XXX-X''" "maskOfLength 5 = ''XXX-XX-''"
   "maskOfLength 6 = ''XXX-XX-X''" "maskOfLength 7 = ''XXX-XX-XX''"
   "maskOfLength 8 = ''XXX-XX-XXX''" "maskOfLength 9 = ''XXX-XX-XXXX''"
    by code_simp+
  show ?thesis by (intro conjI a b c t)
qed

text \<open>
  Claim C9. Starting from the empty state, after every sequence of events
  \<^verbatim>\<open>ssnActualValue\<close> holds digits only, at most nine of them, and while it is not empty it
  differs from the mask written to the field.
\<close>

theorem ssnActualValue_invariant:
  "list_all isDigit (ssnActualValue (ssnRun vs ssn_init)) \<and>
   length (ssnActualValue (ssnRun vs ssn_init)) \<le> 9 \<and>
   (ssnActualValue (ssnRun vs ssn_init) \<noteq> [] \<longrightarrow>
      ssnActualValue (ssnRun vs ssn_init) \<noteq> inputValue (ssnRun vs ssn_init))"
proof -
  let ?s = "ssnRun vs ssn_init"
  have inv: "ssn_inv ?s" by (rule reach_inv)
  have ne: "ssnActualValue ?s \<noteq> inputValue ?s" if "ssnActualValue ?s \<noteq> []"
  proof
    assume eq: "ssnActualValue ?s = inputValue ?s"
    from that have "0 < length (ssnActualValue ?s)" by simp
    then obtain r where "maskOfLength (length (ssnActualValue ?s)) = CHR ''X'' # r"
      using hd_maskOfLength by blast
    with inv eq have "ssnActualValue ?s = CHR ''X'' # r" by (simp add: ssn_inv_def)
    with inv have "isDigit (CHR ''X'')" by (simp add: ssn_inv_def)
    then show False by (simp add: isDigit_def code_def)
  qed
  from inv ne show ?thesis by (simp add: ssn_inv_def)
qed

theorem ssnActualValue_invariant_witness:
  "list_all isDigit (ssnActualValue (ssnRun [''7'', ''X''] ssn_init)) \<and>
   length (ssnActualValue (ssnRun [''7'', ''X''] ssn_init)) \<le> 9 \<and>
   ssnActualValue (ssnRun [''7'', ''X''] ssn_init) = ''7'' \<and>
   inputValue (ssnRun [''7'', ''X''] ssn_init) = ''X'' \<and>
   ssnActualValue (ssnRun [''7'', ''X''] ssn_init) \<noteq> inputValue (ssnRun [''7'', ''X''] ssn_init)"
proof -
  let ?s = "ssnRun [''7'', ''X''] ssn_init"
  note t = ssnActualValue_invariant[of "[''7'', ''X'']"]
  have v: "ssnActualValue ?s = ''7''" by code_simp
  have d: "inputValue ?s = ''X''" by code_simp
  from v have n: "ssnActualValue ?s \<noteq> []" by simp
  from t have a: "list_all isDigit (ssnActualValue ?s)" by (rule conjunct1)
  from t have b: "length (ssnActualValue ?s) \<le> 9" by blast
  from t n have c: "ssnActualValue ?s \<noteq> inputValue ?s" by blast
  show ?thesis by (intro conjI a b v d c)
qed

section \<open>Dates: proofs\<close>


text \<open>Day numbers of years: each year has 365 or 366 days, and 400 years have 146097.\<close>

lemma div_step:
  fixes x k :: int
  assumes k: "0 < k"
  shows "(x + 1) div k = x div k + (if (x + 1) mod k = 0 then 1 else 0)"
proof -
  have x: "k * (x div k) + x mod k = x" by simp
  have r: "0 \<le> x mod k" "x mod k < k" using k by simp_all
  show ?thesis
  proof (cases "x mod k + 1 = k")
    case True
    have d: "k * (x div k + 1) = k * (x div k) + k" by (simp add: distrib_left)
    have e: "x + 1 = k * (x div k + 1) + 0" using x True d by linarith
    have "(x + 1) div k = x div k + 1" by (rule int_div_pos_eq[OF e]) (use k in simp_all)
    moreover have "(x + 1) mod k = 0" by (rule int_mod_pos_eq[OF e]) (use k in simp_all)
    ultimately show ?thesis by simp
  next
    case False
    then have lt: "x mod k + 1 < k" using r by simp
    have e: "x + 1 = k * (x div k) + (x mod k + 1)" using x by linarith
    have "(x + 1) div k = x div k" by (rule int_div_pos_eq[OF e]) (use r lt in simp_all)
    moreover have "(x + 1) mod k = x mod k + 1" by (rule int_mod_pos_eq[OF e]) (use r lt in simp_all)
    ultimately show ?thesis using r by simp
  qed
qed

lemma mod_shift:
  fixes y k c :: int
  shows "(y - k * c) mod k = y mod k"
  by (metis mod_mult_self1 diff_conv_add_uminus mult.commute mult_minus_right add.commute mod_mult_self2 mult_minus_left)

lemma m4: "((y::int) - 1968) mod 4 = y mod 4" using mod_shift[of y 4 492] by simp
lemma m100: "((y::int) - 1900) mod 100 = y mod 100" using mod_shift[of y 100 19] by simp
lemma m400: "((y::int) - 1600) mod 400 = y mod 400" using mod_shift[of y 400 4] by simp
lemma m400_100: "(y::int) mod 400 = 0 \<Longrightarrow> y mod 100 = 0"
proof -
  assume "y mod 400 = 0"
  then have h1: "400 dvd y" by (simp add: mod_eq_0_iff_dvd)
  have h2: "(100::int) dvd 400" by simp
  from dvd_trans[OF h2 h1] show ?thesis by simp
qed

lemma m100_4: "(y::int) mod 100 = 0 \<Longrightarrow> y mod 4 = 0"
proof -
  assume "y mod 100 = 0"
  then have h1: "100 dvd y" by (simp add: mod_eq_0_iff_dvd)
  have h2: "(4::int) dvd 100" by simp
  from dvd_trans[OF h2 h1] show ?thesis by simp
qed

lemma DayFromYear_Suc: "DayFromYear (y + 1) = DayFromYear y + DaysInYear y"
proof -
  have a: "(y + 1 - 1969) div 4 = (y - 1969) div 4 + (if y mod 4 = 0 then 1 else 0)"
    using div_step[of 4 "y - 1969"] m4[of y] by (simp add: algebra_simps)
  have b: "(y + 1 - 1901) div 100 = (y - 1901) div 100 + (if y mod 100 = 0 then 1 else 0)"
    using div_step[of 100 "y - 1901"] m100[of y] by (simp add: algebra_simps)
  have c: "(y + 1 - 1601) div 400 = (y - 1601) div 400 + (if y mod 400 = 0 then 1 else 0)"
    using div_step[of 400 "y - 1601"] m400[of y] by (simp add: algebra_simps)
  show ?thesis
    unfolding DayFromYear_def DaysInYear_def a b c
    using m400_100[of y] m100_4[of y] by auto
qed


lemma DaysInYear_bounds: "365 \<le> DaysInYear y" "DaysInYear y \<le> 366"
  by (simp_all add: DaysInYear_def)

lemma DayFromYear_add:
  "DayFromYear y + 365 * int k \<le> DayFromYear (y + int k) \<and>
   DayFromYear (y + int k) \<le> DayFromYear y + 366 * int k"
proof (induction k)
  case 0
  then show ?case by simp
next
  case (Suc k)
  have "DayFromYear (y + int (Suc k)) = DayFromYear (y + int k) + DaysInYear (y + int k)"
    using DayFromYear_Suc[of "y + int k"] by (simp add: algebra_simps)
  with Suc DaysInYear_bounds[of "y + int k"] show ?case by simp
qed

lemma DayFromYear_strict_mono: "y < z \<Longrightarrow> DayFromYear y < DayFromYear z"
proof -
  assume "y < z"
  then obtain k where k: "z = y + int k" "0 < k"
    by (metis zless_iff_Suc_zadd zero_less_Suc)
  from DayFromYear_add[of y k] k show ?thesis by simp
qed

lemma DayFromYear_cycle: "DayFromYear (1970 + 400 * q) = 146097 * q"
proof -
  have a: "(1970 + 400 * q - 1969) div 4 = 100 * q"
    by (rule int_div_pos_eq[where r = 1]) simp_all
  have b: "(1970 + 400 * q - 1901) div 100 = 4 * q"
    by (rule int_div_pos_eq[where r = 69]) simp_all
  have c: "(1970 + 400 * q - 1601) div 400 = q"
    by (rule int_div_pos_eq[where r = 369]) simp_all
  show ?thesis unfolding DayFromYear_def a b c by simp
qed

text \<open>\<open>YearFromDay\<close> is the year of the standard: the one whose first day is not after the
  day and whose successor starts after it.\<close>

lemma yearUp_lower: "DayFromYear y \<le> n \<Longrightarrow> DayFromYear (yearUp k n y) \<le> n"
  by (induction k arbitrary: y) auto

lemma yearUp_upper:
  "n < DayFromYear (y + int k) \<Longrightarrow> n < DayFromYear (yearUp k n y + 1)"
proof (induction k arbitrary: y)
  case 0
  then have "n < DayFromYear y" by simp
  also have "DayFromYear y < DayFromYear (y + 1)" by (rule DayFromYear_strict_mono) simp
  finally show ?case by simp
next
  case (Suc k)
  show ?case
  proof (cases "DayFromYear (y + 1) \<le> n")
    case True
    have "n < DayFromYear (y + 1 + int k)" using Suc.prems by (simp add: algebra_simps)
    from Suc.IH[OF this] True show ?thesis by simp
  next
    case False
    then show ?thesis by simp
  qed
qed

lemma YearFromDay_bounds:
  "DayFromYear (YearFromDay n) \<le> n" "n < DayFromYear (YearFromDay n + 1)"
proof -
  let ?q = "n div 146097"
  have m: "146097 * ?q + n mod 146097 = n" by simp
  have r: "0 \<le> n mod 146097" "n mod 146097 < 146097" by simp_all
  have lo: "DayFromYear (1970 + 400 * ?q) \<le> n"
    unfolding DayFromYear_cycle using m r by linarith
  have "DayFromYear (1970 + 400 * ?q + int 400) = 146097 * ?q + 146097"
    using DayFromYear_cycle[of "?q + 1"] by (simp add: algebra_simps)
  then have hi: "n < DayFromYear (1970 + 400 * ?q + int 400)"
    using m r by linarith
  show "DayFromYear (YearFromDay n) \<le> n"
    unfolding YearFromDay_def by (rule yearUp_lower[OF lo])
  show "n < DayFromYear (YearFromDay n + 1)"
    unfolding YearFromDay_def by (rule yearUp_upper[OF hi])
qed

lemma YearFromDay_unique:
  "DayFromYear y \<le> n \<Longrightarrow> n < DayFromYear (y + 1) \<Longrightarrow> YearFromDay n = y"
proof (rule ccontr)
  assume a: "DayFromYear y \<le> n" "n < DayFromYear (y + 1)" and ne: "YearFromDay n \<noteq> y"
  note b = YearFromDay_bounds[of n]
  show False
  proof (cases "YearFromDay n < y")
    case True
    then have "DayFromYear (YearFromDay n + 1) \<le> DayFromYear y"
      using DayFromYear_strict_mono[of "YearFromDay n + 1" y] by (cases "YearFromDay n + 1 = y") auto
    with a b show False by simp
  next
    case False
    with ne have "y + 1 \<le> YearFromDay n" by simp
    then have "DayFromYear (y + 1) \<le> DayFromYear (YearFromDay n)"
      using DayFromYear_strict_mono[of "y + 1" "YearFromDay n"] by (cases "y + 1 = YearFromDay n") auto
    with a b show False by simp
  qed
qed

text \<open>Year, month and day of a day number give the day number back.\<close>

lemma dayInYear_bounds:
  "0 \<le> n - DayFromYear (YearFromDay n)"
  "n - DayFromYear (YearFromDay n) < 365 + leapDays (YearFromDay n)"
  using YearFromDay_bounds[of n] DayFromYear_Suc[of "YearFromDay n"]
  by (simp_all add: leapDays_def)

lemma leapDays_01: "leapDays y = 0 \<or> leapDays y = 1"
  by (simp add: leapDays_def DaysInYear_def)

lemma MonthFromDay_range: "0 \<le> MonthFromDay n \<and> MonthFromDay n \<le> 11"
  by (simp add: MonthFromDay_def Let_def)

lemma DateFromDay_range: "1 \<le> DateFromDay n \<and> DateFromDay n \<le> 31"
  using dayInYear_bounds[of n] leapDays_01[of "YearFromDay n"]
  by (auto simp: DateFromDay_def MonthFromDay_def monthStart_def Let_def)

lemma MakeDay_month: "0 \<le> m \<Longrightarrow> m \<le> 11 \<Longrightarrow>
  MakeDay y m d = DayFromYear y + monthStart (leapDays y) m + d - 1"
  by (simp add: MakeDay_def Let_def)

lemma MakeDay_roundtrip: "MakeDay (YearFromDay n) (MonthFromDay n) (DateFromDay n) = n"
  using MonthFromDay_range[of n]
  by (simp add: MakeDay_month) (simp add: DateFromDay_def Let_def)


text \<open>Going back whole years moves a calendar day by 365 or 366 days for each year, up to
  one day of leap-year shift within the year.\<close>

lemma monthStart_leap_diff:
  "(l = 0 \<or> l = 1) \<Longrightarrow> (l' = 0 \<or> l' = 1) \<Longrightarrow>
   monthStart l m - 1 \<le> monthStart l' m \<and> monthStart l' m \<le> monthStart l m + 1"
  by (auto simp: monthStart_def)

lemma MakeDay_years:
  assumes "0 \<le> m" "m \<le> 11"
  shows "MakeDay y m d + 365 * int k - 1 \<le> MakeDay (y + int k) m d \<and>
         MakeDay (y + int k) m d \<le> MakeDay y m d + 366 * int k + 1"
  using DayFromYear_add[of y k]
    monthStart_leap_diff[OF leapDays_01[of y] leapDays_01[of "y + int k"], of m]
  by (simp add: MakeDay_month[OF assms])

text \<open>Today in local time, and the date 120 years back.\<close>

lemma localDay_bounds:
  "localDay c * msPerDay \<le> now c + offsetAtUTC c (now c)"
  "now c + offsetAtUTC c (now c) < localDay c * msPerDay + msPerDay"
proof -
  let ?x = "now c + offsetAtUTC c (now c)"
  have m: "?x div msPerDay * msPerDay + ?x mod msPerDay = ?x"
    by simp
  have r: "0 \<le> ?x mod msPerDay" "?x mod msPerDay < msPerDay"
    by (simp_all add: msPerDay_def)
  show "localDay c * msPerDay \<le> ?x"
    unfolding localDay_def using m r by linarith
  show "?x < localDay c * msPerDay + msPerDay"
    unfolding localDay_def using m r by linarith
qed

lemma today_fields:
  "getFullYear c (now c) = YearFromDay (localDay c)"
  "getMonth c (now c) = MonthFromDay (localDay c)"
  "getDate c (now c) = DateFromDay (localDay c)"
  by (simp_all add: getFullYear_def getMonth_def getDate_def localDay_def)

lemma clockOk_bounds:
  assumes "clockOk c"
  shows "0 \<le> now c" "now c \<le> 8640000000000000"
    "- 86400000 < offsetAtUTC c t" "offsetAtUTC c t < 86400000"
    "- 86400000 < offsetAtLocal c t" "offsetAtLocal c t < 86400000"
proof -
  from assms have u: "\<bar>offsetAtUTC c t\<bar> < msPerDay" and l: "\<bar>offsetAtLocal c t\<bar> < msPerDay"
    by (simp_all add: clockOk_def)
  from assms show "0 \<le> now c" "now c \<le> 8640000000000000" by (simp_all add: clockOk_def)
  from u show "- 86400000 < offsetAtUTC c t" "offsetAtUTC c t < 86400000"
    unfolding msPerDay_def by linarith+
  from l show "- 86400000 < offsetAtLocal c t" "offsetAtLocal c t < 86400000"
    unfolding msPerDay_def by linarith+
qed

lemma year_ge_1969:
  assumes "clockOk c"
  shows "1969 \<le> YearFromDay (localDay c)"
proof (rule ccontr)
  assume "\<not> 1969 \<le> YearFromDay (localDay c)"
  then have "YearFromDay (localDay c) + 1 < 1969 \<or> YearFromDay (localDay c) + 1 = 1969" by linarith
  then have "DayFromYear (YearFromDay (localDay c) + 1) \<le> DayFromYear 1969"
    using DayFromYear_strict_mono[of "YearFromDay (localDay c) + 1" 1969] by auto
  also have "DayFromYear 1969 = - 365" by (simp add: DayFromYear_def)
  finally have "localDay c < - 365" using YearFromDay_bounds(2)[of "localDay c"] by simp
  then have "localDay c * msPerDay + msPerDay \<le> - 365 * msPerDay" by (simp add: msPerDay_def)
  with localDay_bounds(2)[of c] clockOk_bounds(1)[OF assms] clockOk_bounds(3)[OF assms, of "now c"]
  show False unfolding msPerDay_def by linarith
qed

lemma day120_bounds:
  "localDay c - 43921 \<le> day120 c" "day120 c \<le> localDay c - 43799"
proof -
  let ?n = "localDay c"
  let ?Y = "YearFromDay ?n" and ?M = "MonthFromDay ?n" and ?D = "DateFromDay ?n"
  have mr: "0 \<le> ?M" "?M \<le> 11" using MonthFromDay_range[of ?n] by simp_all
  have rt: "MakeDay ?Y ?M ?D = ?n" by (rule MakeDay_roundtrip)
  have "MakeDay (?Y - 120) ?M ?D + 365 * int 120 - 1 \<le> MakeDay (?Y - 120 + int 120) ?M ?D \<and>
        MakeDay (?Y - 120 + int 120) ?M ?D \<le> MakeDay (?Y - 120) ?M ?D + 366 * int 120 + 1"
    by (rule MakeDay_years[OF mr])
  then have b: "?n - 43921 \<le> MakeDay (?Y - 120) ?M ?D" "MakeDay (?Y - 120) ?M ?D \<le> ?n - 43799"
    using rt by simp_all
  show "localDay c - 43921 \<le> day120 c" unfolding day120_def today_fields by (rule b(1))
  show "day120 c \<le> localDay c - 43799" unfolding day120_def today_fields by (rule b(2))
qed

lemma TimeClip_in_range: "- 8640000000000000 \<le> t \<Longrightarrow> t \<le> 8640000000000000 \<Longrightarrow> TimeClip t = Some t"
  unfolding TimeClip_def by (rule if_not_P) linarith

text \<open>\<^verbatim>\<open>age120\<close> is local midnight of that day, with the offset that the host has in force
  there.\<close>

lemma age120_value:
  assumes ok: "clockOk c"
  shows "age120 c = Some (day120 c * msPerDay - offsetAtLocal c (day120 c * msPerDay))"
proof -
  let ?n = "localDay c"
  let ?Y = "YearFromDay ?n" and ?M = "MonthFromDay ?n" and ?D = "DateFromDay ?n"
  let ?o = "offsetAtLocal c (day120 c * msPerDay)"
  note b = day120_bounds[of c] and k = clockOk_bounds[OF ok]
  have y: "\<not> (0 \<le> ?Y - 120 \<and> ?Y - 120 \<le> 99)" using year_ge_1969[OF ok] by simp
  have yr: "(if 0 \<le> ?Y - 120 \<and> ?Y - 120 \<le> 99 then 1900 + (?Y - 120) else ?Y - 120) = ?Y - 120"
    by (rule if_not_P[OF y])
  have d: "MakeDay (?Y - 120) ?M ?D = day120 c" by (simp add: day120_def today_fields)
  have lo: "- 8640000000000000 \<le> day120 c * msPerDay - ?o"
    using b(1) localDay_bounds[of c] k(1) k(3)[of "now c"] k(6)[of "day120 c * msPerDay"]
    unfolding msPerDay_def by linarith
  have hi: "day120 c * msPerDay - ?o \<le> 8640000000000000"
    using b(2) localDay_bounds[of c] k(2) k(4)[of "now c"] k(5)[of "day120 c * msPerDay"]
    unfolding msPerDay_def by linarith
  show ?thesis
    unfolding age120_def today_fields newDateYMD_def Let_def yr d
    by (rule TimeClip_in_range[OF lo hi])
qed

text \<open>The validator on dates given as date-only strings.\<close>

lemma vdob_nonempty:
  "dob \<noteq> [] \<Longrightarrow> validateDateOfBirth c dob =
     (if dateGreater (newDateString c dob) (Some (now c)) then Some ''Cannot be in the future''
      else if dateLess (newDateString c dob) (age120 c) then Some ''Cannot be more than 120 years ago''
      else None)"
  by (simp add: validateDateOfBirth_def Let_def)

lemma isoDate_nonempty: "isoDate s = Some r \<Longrightarrow> s \<noteq> []"
  by auto

lemma newDateString_iso:
  "isoDate s = Some (y, m, d) \<Longrightarrow> newDateString c s = TimeClip (MakeDay y (m - 1) d * msPerDay)"
  by (simp add: newDateString_def)

text \<open>
  Away from three days the validator does what its messages say, on every host: a day
  from the day after tomorrow on is in the future, a day before the day 120 years back is
  too old, and a day after that one and before today passes. On today, on tomorrow and on
  the day 120 years back the answer depends on the host's offset from UTC.
\<close>

lemma vdob_by_day:
  assumes ok: "clockOk c"
    and iso: "isoDate dob = Some (y, m, d)"
    and clip: "newDateString c dob = Some (MakeDay y (m - 1) d * msPerDay)"
  shows "(localDay c + 2 \<le> MakeDay y (m - 1) d \<longrightarrow>
            validateDateOfBirth c dob = Some ''Cannot be in the future'') \<and>
         (MakeDay y (m - 1) d + 1 \<le> day120 c \<longrightarrow>
            validateDateOfBirth c dob = Some ''Cannot be more than 120 years ago'') \<and>
         (day120 c + 1 \<le> MakeDay y (m - 1) d \<and> MakeDay y (m - 1) d + 1 \<le> localDay c \<longrightarrow>
            validateDateOfBirth c dob = None)"
proof -
  let ?k = "MakeDay y (m - 1) d"
  let ?o = "offsetAtLocal c (day120 c * msPerDay)"
  note b = day120_bounds[of c] and k = clockOk_bounds[OF ok] and n = localDay_bounds[of c]
  note v = vdob_nonempty[OF isoDate_nonempty[OF iso], of c]
  have fut: "validateDateOfBirth c dob = Some ''Cannot be in the future''"
    if "localDay c + 2 \<le> ?k"
  proof -
    have "now c < ?k * msPerDay"
      using that n(2) k(3)[of "now c"] unfolding msPerDay_def by linarith
    then show ?thesis unfolding v clip by (simp add: dateGreater_def)
  qed
  have old: "validateDateOfBirth c dob = Some ''Cannot be more than 120 years ago''"
    if "?k + 1 \<le> day120 c"
  proof -
    have a: "?k * msPerDay \<le> now c"
      using that b(2) n(1) k(4)[of "now c"] unfolding msPerDay_def by linarith
    have l: "?k * msPerDay < day120 c * msPerDay - ?o"
      using that k(6)[of "day120 c * msPerDay"] unfolding msPerDay_def by linarith
    show ?thesis unfolding v clip age120_value[OF ok] using a l
      by (simp add: dateGreater_def dateLess_def)
  qed
  have pass: "validateDateOfBirth c dob = None"
    if "day120 c + 1 \<le> ?k \<and> ?k + 1 \<le> localDay c"
  proof -
    have a: "?k * msPerDay \<le> now c"
      using that n(1) k(4)[of "now c"] unfolding msPerDay_def by linarith
    have l: "\<not> ?k * msPerDay < day120 c * msPerDay - ?o"
      using that k(5)[of "day120 c * msPerDay"] unfolding msPerDay_def by linarith
    show ?thesis unfolding v clip age120_value[OF ok] using a l
      by (simp add: dateGreater_def dateLess_def)
  qed
  from fut old pass show ?thesis by blast
qed

text \<open>The three examples of the claim, on every host.\<close>

lemma vdob_2999:
  assumes "now c < 32472144000000"
  shows "validateDateOfBirth c ''2999-01-01'' = Some ''Cannot be in the future''"
proof -
  have i: "isoDate ''2999-01-01'' = Some (2999, 1, 1)" by code_simp
  have m: "MakeDay 2999 (1 - 1) 1 * msPerDay = 32472144000000" by code_simp
  have "newDateString c ''2999-01-01'' = Some 32472144000000"
    unfolding newDateString_iso[OF i] m by (rule TimeClip_in_range) simp_all
  then show ?thesis using assms by (simp add: vdob_nonempty dateGreater_def)
qed

lemma clip_before_today:
  assumes ok: "clockOk c" and iso: "isoDate dob = Some (y, m, d)"
    and lo: "localDay c - 50000 \<le> MakeDay y (m - 1) d" and hi: "MakeDay y (m - 1) d + 1 \<le> localDay c"
  shows "newDateString c dob = Some (MakeDay y (m - 1) d * msPerDay)"
proof -
  note k = clockOk_bounds[OF ok] and n = localDay_bounds[of c]
  have l: "- 8640000000000000 \<le> MakeDay y (m - 1) d * msPerDay"
    using lo n(2) k(1) k(3)[of "now c"] unfolding msPerDay_def by linarith
  have h: "MakeDay y (m - 1) d * msPerDay \<le> 8640000000000000"
    using hi n(1) k(2) k(4)[of "now c"] unfolding msPerDay_def by linarith
  show ?thesis unfolding newDateString_iso[OF iso] by (rule TimeClip_in_range[OF l h])
qed

lemma vdob_121_years:
  assumes ok: "clockOk c"
    and iso: "isoDate dob = Some (getFullYear c (now c) - 121, getMonth c (now c) + 1, getDate c (now c))"
  shows "validateDateOfBirth c dob = Some ''Cannot be more than 120 years ago''"
proof -
  let ?Y = "getFullYear c (now c)" and ?M = "getMonth c (now c)" and ?D = "getDate c (now c)"
  let ?B = "MakeDay (?Y - 121) (?M + 1 - 1) ?D"
  have mr: "0 \<le> ?M" "?M \<le> 11" using MonthFromDay_range[of "localDay c"] by (simp_all add: today_fields)
  note b = day120_bounds[of c]
  have "MakeDay (?Y - 121) ?M ?D + 365 * int 1 - 1 \<le> MakeDay (?Y - 121 + int 1) ?M ?D \<and>
        MakeDay (?Y - 121 + int 1) ?M ?D \<le> MakeDay (?Y - 121) ?M ?D + 366 * int 1 + 1"
    by (rule MakeDay_years[OF mr])
  then have ba: "?B + 364 \<le> day120 c" "day120 c \<le> ?B + 367" by (simp_all add: day120_def)
  have c: "newDateString c dob = Some (?B * msPerDay)"
    by (rule clip_before_today[OF ok iso]) (use ba b in linarith)+
  from vdob_by_day[OF ok iso c] ba show ?thesis by simp
qed

lemma vdob_120_years_less_day:
  assumes ok: "clockOk c"
    and iso: "isoDate dob = Some (y, m, d)"
    and day: "MakeDay y (m - 1) d = day120 c + 1"
  shows "validateDateOfBirth c dob = None"
proof -
  note b = day120_bounds[of c]
  have c: "newDateString c dob = Some (MakeDay y (m - 1) d * msPerDay)"
    by (rule clip_before_today[OF ok iso]) (use day b in linarith)+
  from vdob_by_day[OF ok iso c] day b show ?thesis by simp
qed

lemma examples_on_shifting_host:
  "clockOk shiftingClock"
  "validateDateOfBirth shiftingClock ''2999-01-01'' = Some ''Cannot be in the future''"
  "validateDateOfBirth shiftingClock ''1904-11-02'' = Some ''Cannot be more than 120 years ago''"
  "validateDateOfBirth shiftingClock ''1905-11-03'' = None"
proof -
  show "clockOk shiftingClock" by (simp add: clockOk_def shiftingClock_def msPerDay_def)
  show "validateDateOfBirth shiftingClock ''2999-01-01'' = Some ''Cannot be in the future''"
    by code_simp
  show "validateDateOfBirth shiftingClock ''1904-11-02'' = Some ''Cannot be more than 120 years ago''"
    by code_simp
  show "validateDateOfBirth shiftingClock ''1905-11-03'' = None"
    by code_simp
qed

text \<open>
  Claim C4 fails on the code on the days next to its two limits, where the code sets
  midnight UTC of the date of birth against local times. On a host eight hours west of
  UTC, where today is 2 November 2025: the date exactly 120 years back, 2 November 1905,
  is answered "Cannot be more than 120 years ago", though it is not earlier than today
  minus 120 years; and in the evening tomorrow's date, 3 November 2025, passes, though
  it is later than the current date. On a host ten hours east of UTC in the morning,
  where today is 2 November 2025 as well, today's own date is answered "Cannot be in
  the future".
\<close>

theorem validateDateOfBirth_boundary_days:
  "getFullYear exampleClock (now exampleClock) = 2025 \<and>
   getMonth exampleClock (now exampleClock) = 10 \<and>
   getDate exampleClock (now exampleClock) = 2 \<and>
   validateDateOfBirth exampleClock ''1905-11-02'' = Some ''Cannot be more than 120 years ago'' \<and>
   getFullYear westEveningClock (now westEveningClock) = 2025 \<and>
   getMonth westEveningClock (now westEveningClock) = 10 \<and>
   getDate westEveningClock (now westEveningClock) = 2 \<and>
   validateDateOfBirth westEveningClock ''2025-11-03'' = None \<and>
   getFullYear eastMorningClock (now eastMorningClock) = 2025 \<and>
   getMonth eastMorningClock (now eastMorningClock) = 10 \<and>
   getDate eastMorningClock (now eastMorningClock) = 2 \<and>
   validateDateOfBirth eastMorningClock ''2025-11-02'' = Some ''Cannot be in the future''"
  by (intro conjI) code_simp+

text \<open>
  The sibling \<^verbatim>\<open>setDateLimits\<close> draws the lower limit elsewhere: on the western host it
  sets \<^verbatim>\<open>min\<close> to 2 November 1905, the very date that \<^verbatim>\<open>validateDateOfBirth\<close> turns away
  there.
\<close>

lemma setDateLimits_western_host:
  "setDateLimits exampleClock = Some (''2025-11-02'', ''1905-11-02'')"
  by code_simp

section \<open>Field rules, error display and submission: proofs\<close>

subsection \<open>Errors of untouched fields\<close>

text \<open>
  The names that the script passes to \<^verbatim>\<open>showFieldError\<close> (the list of
  \<^verbatim>\<open>initializeForm\<close> and of \<^verbatim>\<open>validateAllFieldsNow\<close>), the other names of
  \<^verbatim>\<open>validateAllFields\<close> and the sentinel are none of the names that every object inherits.
  At an inherited name with nothing stored the condition is true.
\<close>

lemma field_names_not_inherited:
  "set [''firstName'', ''middleInitial'', ''lastName'', ''dateOfBirth'', ''socialSecurity'',
        ''gender'', ''addressLine1'', ''addressLine2'', ''city'', ''state'', ''zipCode'',
        ''emailAddress'', ''phoneNumber'', ''emergencyContact'', ''emergencyPhone'',
        ''isVaccinated'', ''hasInsurance'', ''desiredUserID'', ''password'', ''confirmPassword'',
        ''preferredLanguage'', ''preferredContactMethod'', ''medicalConditions'',
        ''currentSymptoms'', ''healthRating'', ''painLevel'', ''insuranceProvider'',
        ''policyNumber'', ''physicianName'', ''pharmacyName'', ''consentMarketing'',
        ''consentDataSharing'', ''__validateAll__'']
     \<inter> set inheritedKeys = {}"
  by (simp add: inheritedKeys_def)

lemma touched_stored:
  "fieldName \<notin> set inheritedKeys \<Longrightarrow> touched st fieldName = (fieldTouched st fieldName = Some True)"
  by (simp add: touched_def split: option.splits)

lemma touched_inherited:
  "fieldName \<in> set inheritedKeys \<Longrightarrow> fieldTouched st fieldName = None \<Longrightarrow> touched st fieldName"
  by (simp add: touched_def)

text \<open>
  Claim C10. For a field name of the form, which is none of the names that every object
  inherits, that is not marked touched, while the sentinel \<^verbatim>\<open>__validateAll__\<close> is not
  set, \<^verbatim>\<open>showFieldError\<close> returns the whole state as it was: the error table, the error
  element, the error class and the counter; so the error count is the same.
\<close>

theorem showFieldError_untouched_noop:
  assumes "fieldName \<notin> set inheritedKeys"
    and "fieldTouched st fieldName \<noteq> Some True"
    and "fieldTouched st ''__validateAll__'' \<noteq> Some True"
  shows "showFieldError st fieldName errorMessage = st \<and>
         errorCountOf (showFieldError st fieldName errorMessage) = errorCountOf st"
proof -
  have s: "''__validateAll__'' \<notin> set inheritedKeys" by (simp add: inheritedKeys_def)
  have "\<not> touched st fieldName" using assms(1,2) by (simp add: touched_stored)
  moreover have "\<not> touched st ''__validateAll__''" using assms(3) by (simp add: touched_stored[OF s])
  ultimately show ?thesis by (simp add: showFieldError_def split: option.splits)
qed

theorem showFieldError_untouched_noop_witness:
  "''firstName'' \<notin> set inheritedKeys \<and>
   fieldTouched exampleForm ''firstName'' \<noteq> Some True \<and>
   fieldTouched exampleForm ''__validateAll__'' \<noteq> Some True \<and>
   querySelector exampleForm ''firstName'' \<noteq> None \<and>
   showFieldError exampleForm ''firstName''
     (Some ''Enter 1-30 characters, letters, apostrophes, and dashes only'') = exampleForm"
proof -
  have h0: "''firstName'' \<notin> set inheritedKeys" by (simp add: inheritedKeys_def)
  have h1: "fieldTouched exampleForm ''firstName'' \<noteq> Some True" by (simp add: exampleForm_def)
  have h2: "fieldTouched exampleForm ''__validateAll__'' \<noteq> Some True" by (simp add: exampleForm_def)
  have h3: "querySelector exampleForm ''firstName'' \<noteq> None"
    by (simp add: querySelector_def exampleForm_def)
  from showFieldError_untouched_noop[OF h0 h1 h2]
  have r: "showFieldError exampleForm ''firstName''
     (Some ''Enter 1-30 characters, letters, apostrophes, and dashes only'') = exampleForm"
    by (rule conjunct1)
  show ?thesis by (intro conjI h0 h1 h2 h3 r)
qed

subsection \<open>The counter and the two buttons\<close>

lemma requiredLoop_all:
  "requiredLoop st fs \<longleftrightarrow> (\<forall>f \<in> set fs. trim (getFieldValue st f) \<noteq> [])"
proof (induction fs)
  case Nil
  then show ?case by simp
next
  case (Cons f fs)
  have "getFieldValue st f = [] \<Longrightarrow> trim (getFieldValue st f) = []" by (simp add: trim_def)
  with Cons show ?case by (auto simp: Let_def)
qed

lemma updateErrorCounter_frame [simp]:
  "named (updateErrorCounter st) = named st"
  "ssn (updateErrorCounter st) = ssn st"
  "validationErrors (updateErrorCounter st) = validationErrors st"
  "fieldTouched (updateErrorCounter st) = fieldTouched st"
  "errorElements (updateErrorCounter st) = errorElements st"
  by (simp_all add: updateErrorCounter_def Let_def)

lemma getFieldValue_cong:
  assumes n: "named st' = named st" and s: "ssn st' = ssn st"
  shows "getFieldValue st' f = getFieldValue st f"
proof -
  have q: "querySelector st' f = querySelector st f" by (simp add: querySelector_def n)
  have c: "queryChecked st' f = queryChecked st f" by (simp add: queryChecked_def n)
  show ?thesis unfolding getFieldValue_def q c s ..
qed

lemma getFieldValue_updateErrorCounter [simp]:
  "getFieldValue (updateErrorCounter st) f = getFieldValue st f"
  by (rule getFieldValue_cong) simp_all

lemma errorCountOf_updateErrorCounter [simp]:
  "errorCountOf (updateErrorCounter st) = errorCountOf st"
  by (simp add: errorCountOf_def)

lemma areAll_updateErrorCounter [simp]:
  "areAllRequiredFieldsFilled (updateErrorCounter st) = areAllRequiredFieldsFilled st"
  by (simp add: areAllRequiredFieldsFilled_def requiredLoop_all)

lemma last_remainingText: "last (remainingText n) = CHR ''g''"
  by (simp add: remainingText_def)

lemma remainingText_distinct: "remainingText n \<noteq> promptText" "remainingText n \<noteq> allClearText"
proof -
  have "last promptText = CHR ''s''" by (simp add: promptText_def)
  then show "remainingText n \<noteq> promptText" using last_remainingText[of n] by auto
  have "last allClearText = CHR ''.''" by (simp add: allClearText_def)
  then show "remainingText n \<noteq> allClearText" using last_remainingText[of n] by auto
qed

lemma prompt_allClear_distinct: "promptText \<noteq> allClearText"
  by (simp add: promptText_def allClearText_def)

lemma counterText_counterMessage:
  "counterText (counterMessage n filled) =
     (if n > 0 then remainingText n else if \<not> filled then promptText else allClearText)"
  by (simp add: counterMessage_def remainingText_def promptText_def allClearText_def)

text \<open>
  Claim C8. On a page that has the two buttons and the counter, after
  \<^verbatim>\<open>updateErrorCounter\<close> the submit button is shown exactly when the error count is 0
  and every required field has a value that is not empty after trimming (\<open>filled\<close>); the
  validate button is shown exactly in the other case; and the counter text is the one
  of three texts that the pair (error count, \<open>filled\<close>) selects, the three being
  different from each other.
\<close>

theorem updateErrorCounter_affordances:
  assumes "submitBtn st = Some d1" and "validateBtn st = Some d2" and "errorCounter st = Some ce"
    and "st' = updateErrorCounter st"
    and "filled = (\<forall>f \<in> set requiredFields. trim (getFieldValue st' f) \<noteq> [])"
  shows "(submitBtn st' = Some ''inline-block'' \<longleftrightarrow> errorCountOf st' = 0 \<and> filled) \<and>
         (submitBtn st' = Some ''none'' \<longleftrightarrow> \<not> (errorCountOf st' = 0 \<and> filled)) \<and>
         (validateBtn st' = Some ''inline-block'' \<longleftrightarrow> \<not> (errorCountOf st' = 0 \<and> filled)) \<and>
         (validateBtn st' = Some ''none'' \<longleftrightarrow> errorCountOf st' = 0 \<and> filled) \<and>
         (\<exists>ce'. errorCounter st' = Some ce' \<and>
            counterText ce' =
              (if errorCountOf st' > 0 then remainingText (errorCountOf st')
               else if \<not> filled then promptText else allClearText) \<and>
            (counterText ce' = remainingText (errorCountOf st') \<longleftrightarrow> errorCountOf st' > 0) \<and>
            (counterText ce' = promptText \<longleftrightarrow> errorCountOf st' = 0 \<and> \<not> filled) \<and>
            (counterText ce' = allClearText \<longleftrightarrow> errorCountOf st' = 0 \<and> filled)) \<and>
         areAllRequiredFieldsFilled st' = filled"
proof -
  have f: "areAllRequiredFieldsFilled st = filled"
    unfolding assms(5) assms(4) by (simp add: areAllRequiredFieldsFilled_def requiredLoop_all)
  have n: "errorCountOf st' = errorCountOf st" unfolding assms(4) by simp
  have s: "submitBtn st' = Some (if errorCountOf st = 0 \<and> filled then ''inline-block'' else ''none'')"
    unfolding assms(4) using assms(1) f by (simp add: updateErrorCounter_def Let_def)
  have v: "validateBtn st' = Some (if errorCountOf st = 0 \<and> filled then ''none'' else ''inline-block'')"
    unfolding assms(4) using assms(2) f by (simp add: updateErrorCounter_def Let_def)
  have c: "errorCounter st' = Some (counterMessage (errorCountOf st) filled)"
    unfolding assms(4) using assms(3) f by (simp add: updateErrorCounter_def Let_def)
  have a: "areAllRequiredFieldsFilled st' = filled" unfolding assms(4) using f by simp
  show ?thesis
    unfolding n s v c a
    using remainingText_distinct[of "errorCountOf st"] prompt_allClear_distinct
    by (auto simp: counterText_counterMessage)
qed

theorem updateErrorCounter_affordances_witness:
  "submitBtn filledForm = Some ''none'' \<and> validateBtn filledForm = Some [] \<and>
   errorCounter filledForm = Some \<lparr> counterText = [], color = [], fontWeight = [] \<rparr> \<and>
   errorCountOf (updateErrorCounter filledForm) = 0 \<and>
   areAllRequiredFieldsFilled (updateErrorCounter filledForm) \<and>
   submitBtn (updateErrorCounter filledForm) = Some ''inline-block'' \<and>
   validateBtn (updateErrorCounter filledForm) = Some ''none'' \<and>
   areAllRequiredFieldsFilled (updateErrorCounter exampleForm) = False \<and>
   submitBtn (updateErrorCounter exampleForm) = Some ''none'' \<and>
   validateBtn (updateErrorCounter exampleForm) = Some ''inline-block'' \<and>
   errorCountOf (updateErrorCounter badNameForm) = 1 \<and>
   submitBtn (updateErrorCounter badNameForm) = Some ''none'' \<and>
   validateBtn (updateErrorCounter badNameForm) = Some ''inline-block'' \<and>
   map_option counterText (errorCounter (updateErrorCounter badNameForm))
     = Some ''1 validation error remaining''"
proof -
  let ?a = "updateErrorCounter filledForm" and ?b = "updateErrorCounter exampleForm"
  have a1: "submitBtn filledForm = Some ''none''" by (simp add: filledForm_def)
  have a2: "validateBtn filledForm = Some []" by (simp add: filledForm_def)
  have a3: "errorCounter filledForm = Some \<lparr> counterText = [], color = [], fontWeight = [] \<rparr>"
    by (simp add: filledForm_def)
  have a4: "True = (\<forall>f \<in> set requiredFields. trim (getFieldValue ?a f) \<noteq> [])" by code_simp
  have a5: "errorCountOf ?a = 0" by code_simp
  note ta = updateErrorCounter_affordances[OF a1 a2 a3 refl a4]
  from ta have a6: "areAllRequiredFieldsFilled ?a" by blast
  from ta a5 have a7: "submitBtn ?a = Some ''inline-block''" by blast
  from ta a5 have a8: "validateBtn ?a = Some ''none''" by blast
  have b1: "submitBtn exampleForm = Some ''none''" by (simp add: exampleForm_def)
  have b2: "validateBtn exampleForm = Some []" by (simp add: exampleForm_def)
  have b3: "errorCounter exampleForm = Some \<lparr> counterText = [], color = [], fontWeight = [] \<rparr>"
    by (simp add: exampleForm_def)
  have b4: "False = (\<forall>f \<in> set requiredFields. trim (getFieldValue ?b f) \<noteq> [])" by code_simp
  note tb = updateErrorCounter_affordances[OF b1 b2 b3 refl b4]
  from tb have b6: "areAllRequiredFieldsFilled ?b = False" by blast
  from tb have b7: "submitBtn ?b = Some ''none''" by blast
  from tb have b8: "validateBtn ?b = Some ''inline-block''" by blast
  let ?c = "updateErrorCounter badNameForm"
  have c1: "submitBtn badNameForm = Some ''none''" by code_simp
  have c2: "validateBtn badNameForm = Some ''inline-block''" by code_simp
  have c3: "errorCounter badNameForm = Some (counterMessage 1 True)" by code_simp
  have c4: "True = (\<forall>f \<in> set requiredFields. trim (getFieldValue ?c f) \<noteq> [])" by code_simp
  have c5: "errorCountOf ?c = 1" by code_simp
  note tc = updateErrorCounter_affordances[OF c1 c2 c3 refl c4]
  from tc c5 have c7: "submitBtn ?c = Some ''none''" by simp
  from tc c5 have c8: "validateBtn ?c = Some ''inline-block''" by simp
  from tc c5 obtain ce' where "errorCounter ?c = Some ce'" and "counterText ce' = remainingText 1"
    by auto
  then have "map_option counterText (errorCounter ?c) = Some (remainingText 1)" by simp
  moreover have "remainingText 1 = ''1 validation error remaining''" by code_simp
  ultimately have c9: "map_option counterText (errorCounter ?c) = Some ''1 validation error remaining''"
    by simp
  show ?thesis by (intro conjI a1 a2 a3 a5 a6 a7 a8 b6 b7 b8 c5 c7 c8 c9)
qed

subsection \<open>Empty values\<close>

text \<open>
  Claim C3, as amended. When the value examined is empty, \<^verbatim>\<open>validateSingleField\<close>
  reports "Please select a state" for the state field, required or not; for another
  field marked required it reports "Required field - please select an option" if the field
  is gender, isVaccinated or hasInsurance and "Required field is empty" otherwise (the
  e-mail field among them), and no format message; for another field not marked required
  it reports nothing.
\<close>

theorem validateSingleField_empty_value:
  assumes "effectiveValue st fieldName value0 = []"
  shows "validateSingleField clk st fieldName value0 =
           (if fieldName = ''state'' then Some ''Please select a state''
            else if isRequired (querySelector st fieldName) then
              (if fieldName \<in> set radioFields
               then Some ''Required field - please select an option''
               else Some ''Required field is empty'')
            else None)"
proof -
  have v: "(if fieldName = ''socialSecurity'' then ssnActualValue (ssn st) else value0) = []"
    using assms by (simp add: effectiveValue_def)
  show ?thesis
    unfolding validateSingleField_def Let_def v radioFields_def
    by simp
qed

theorem validateSingleField_empty_value_witness:
  "effectiveValue exampleForm ''emailAddress'' [] = [] \<and>
   isRequired (querySelector exampleForm ''emailAddress'') \<and>
   validateSingleField exampleClock exampleForm ''emailAddress'' [] = Some ''Required field is empty'' \<and>
   effectiveValue exampleForm ''addressLine2'' [] = [] \<and>
   \<not> isRequired (querySelector exampleForm ''addressLine2'') \<and>
   validateSingleField exampleClock exampleForm ''addressLine2'' [] = None"
proof -
  have h1: "effectiveValue exampleForm ''emailAddress'' [] = []" by (simp add: effectiveValue_def)
  have h2: "isRequired (querySelector exampleForm ''emailAddress'')" by code_simp
  have h3: "effectiveValue exampleForm ''addressLine2'' [] = []" by (simp add: effectiveValue_def)
  have h4: "\<not> isRequired (querySelector exampleForm ''addressLine2'')" by code_simp
  have r1: "validateSingleField exampleClock exampleForm ''emailAddress'' [] = Some ''Required field is empty''"
    unfolding validateSingleField_empty_value[OF h1] using h2 by (simp add: radioFields_def)
  have r2: "validateSingleField exampleClock exampleForm ''addressLine2'' [] = None"
    unfolding validateSingleField_empty_value[OF h3] using h4 by simp
  show ?thesis by (intro conjI h1 h2 r1 h3 h4 r2)
qed

text \<open>
  Claim C3 as stated fails on the state and on the radio fields: a required empty state
  field reports "Please select a state", a required empty gender field reports
  "Required field - please select an option", and a state field that is not required and
  empty is not valid.
\<close>

theorem required_empty_message_counterexample:
  "isRequired (querySelector exampleForm ''state'') \<and>
   getFieldValue exampleForm ''state'' = [] \<and>
   validateSingleField exampleClock exampleForm ''state'' [] = Some ''Please select a state'' \<and>
   isRequired (querySelector exampleForm ''gender'') \<and>
   getFieldValue exampleForm ''gender'' = [] \<and>
   validateSingleField exampleClock exampleForm ''gender'' [] =
     Some ''Required field - please select an option'' \<and>
   \<not> isRequired (querySelector optionalStateForm ''state'') \<and>
   getFieldValue optionalStateForm ''state'' = [] \<and>
   validateSingleField exampleClock optionalStateForm ''state'' [] = Some ''Please select a state''"
  by (intro conjI) code_simp+

subsection \<open>Password violations on both paths\<close>

lemma if_snoc: "(if c then xs @ [m] else xs) = xs @ (if c then [m] else [])"
  by simp

lemma validatePassword_concat:
  "validatePassword password userId firstName lastName =
     (if length password < 8 \<or> length password > 30 then [''Must be 8-30 characters''] else []) @
     (if \<not> list_ex isUpper password then [''Must contain 1 uppercase letter''] else []) @
     (if \<not> list_ex isLower password then [''Must contain 1 lowercase letter''] else []) @
     (if \<not> list_ex isDigit password then [''Must contain 1 digit''] else []) @
     (if \<not> list_ex isSpecial password then [''Must contain 1 special character''] else []) @
     (if list_ex isQuote password then [''Cannot contain quotes''] else []) @
     (if userId \<noteq> [] \<and> includesStr (toLowerCase password) (toLowerCase userId)
      then [''Cannot contain User ID''] else []) @
     (if firstName \<noteq> [] \<and> includesStr (toLowerCase password) (toLowerCase firstName)
      then [''Cannot contain first name''] else []) @
     (if lastName \<noteq> [] \<and> includesStr (toLowerCase password) (toLowerCase lastName)
      then [''Cannot contain last name''] else [])"
  unfolding validatePassword_def Let_def if_snoc by (simp only: append_Nil append_assoc)

lemma abcdefgh_classes:
  "length ''abcdefgh'' = 8" "\<not> list_ex isUpper ''abcdefgh''" "list_ex isLower ''abcdefgh''"
  "\<not> list_ex isDigit ''abcdefgh''" "\<not> list_ex isSpecial ''abcdefgh''"
  "\<not> list_ex isQuote ''abcdefgh''" "toLowerCase ''abcdefgh'' = ''abcdefgh''"
  by code_simp+

lemma validatePassword_abcdefgh:
  "validatePassword ''abcdefgh'' userId firstName lastName =
     [''Must contain 1 uppercase letter'', ''Must contain 1 digit'',
      ''Must contain 1 special character''] @
     (if userId \<noteq> [] \<and> includesStr ''abcdefgh'' (toLowerCase userId)
      then [''Cannot contain User ID''] else []) @
     (if firstName \<noteq> [] \<and> includesStr ''abcdefgh'' (toLowerCase firstName)
      then [''Cannot contain first name''] else []) @
     (if lastName \<noteq> [] \<and> includesStr ''abcdefgh'' (toLowerCase lastName)
      then [''Cannot contain last name''] else [])"
  by (simp only: validatePassword_concat abcdefgh_classes if_True if_False not_False_eq_True
       append_Nil append_Cons simp_thms) simp

lemma set_if_single: "set (if c then [m] else []) = {x. x = m \<and> c}"
  by auto

lemma validatePassword_mem:
  "''Must be 8-30 characters'' \<in> set (validatePassword password userId firstName lastName)
     \<longleftrightarrow> length password < 8 \<or> length password > 30"
  "''Must contain 1 uppercase letter'' \<in> set (validatePassword password userId firstName lastName)
     \<longleftrightarrow> \<not> list_ex isUpper password"
  "''Must contain 1 lowercase letter'' \<in> set (validatePassword password userId firstName lastName)
     \<longleftrightarrow> \<not> list_ex isLower password"
  "''Must contain 1 digit'' \<in> set (validatePassword password userId firstName lastName)
     \<longleftrightarrow> \<not> list_ex isDigit password"
  "''Must contain 1 special character'' \<in> set (validatePassword password userId firstName lastName)
     \<longleftrightarrow> \<not> list_ex isSpecial password"
  "''Cannot contain quotes'' \<in> set (validatePassword password userId firstName lastName)
     \<longleftrightarrow> list_ex isQuote password"
  "''Cannot contain User ID'' \<in> set (validatePassword password userId firstName lastName)
     \<longleftrightarrow> userId \<noteq> [] \<and> includesStr (toLowerCase password) (toLowerCase userId)"
  "''Cannot contain first name'' \<in> set (validatePassword password userId firstName lastName)
     \<longleftrightarrow> firstName \<noteq> [] \<and> includesStr (toLowerCase password) (toLowerCase firstName)"
  "''Cannot contain last name'' \<in> set (validatePassword password userId firstName lastName)
     \<longleftrightarrow> lastName \<noteq> [] \<and> includesStr (toLowerCase password) (toLowerCase lastName)"
  unfolding validatePassword_concat set_append set_if_single by simp_all

lemma validateSingleField_password:
  assumes "value \<noteq> []"
  shows "validateSingleField clk st ''password'' value =
     (if validatePassword value (getFieldValue st ''desiredUserID'')
           (getFieldValue st ''firstName'') (getFieldValue st ''lastName'') \<noteq> []
      then Some (joinWith ''; '' (validatePassword value (getFieldValue st ''desiredUserID'')
                   (getFieldValue st ''firstName'') (getFieldValue st ''lastName'')))
      else None)"
  using assms unfolding validateSingleField_def Let_def by simp

lemma validateFormErrors_concat:
  "validateFormErrors clk st =
     (if truthy (validateDateOfBirth clk (getFieldValue st ''dateOfBirth''))
      then [''Date of Birth: '' @ the (validateDateOfBirth clk (getFieldValue st ''dateOfBirth''))]
      else []) @
     (if length (getFieldValue st ''addressLine2'') = 1
      then [''Address Line 2: Must be 2-30 characters if entered''] else []) @
     (if validatePassword (getFieldValue st ''password'') (getFieldValue st ''desiredUserID'')
           (getFieldValue st ''firstName'') (getFieldValue st ''lastName'') \<noteq> []
      then [''Password: '' @ joinWith '', ''
              (validatePassword (getFieldValue st ''password'') (getFieldValue st ''desiredUserID'')
                 (getFieldValue st ''firstName'') (getFieldValue st ''lastName''))]
      else []) @
     (if getFieldValue st ''password'' \<noteq> getFieldValue st ''confirmPassword''
      then [''Passwords do not match''] else [])"
proof -
  have a: "(getFieldValue st ''addressLine2'' \<noteq> [] \<and> length (getFieldValue st ''addressLine2'') > 0
            \<and> length (getFieldValue st ''addressLine2'') < 2)
           = (length (getFieldValue st ''addressLine2'') = 1)"
    by (cases "getFieldValue st ''addressLine2''") auto
  show ?thesis
    unfolding validateFormErrors_def Let_def if_snoc a
    by (simp only: append_Nil append_assoc length_greater_0_conv)
qed

text \<open>
  Claim C2. For the password \<^verbatim>\<open>abcdefgh\<close> \<^verbatim>\<open>validatePassword\<close> returns the three
  missing-class violations (upper case, digit, special character), whatever the identity
  values; \<^verbatim>\<open>validateSingleField\<close> joins the violations with "; " into one message, and
  the submit-time list of \<^verbatim>\<open>validateForm\<close> holds them joined with ", ". In general,
  each of the nine messages is in the result exactly when its rule is violated, and both
  paths report the whole result.
\<close>

theorem validatePassword_collects_all:
  "validatePassword ''abcdefgh'' [] [] [] =
     [''Must contain 1 uppercase letter'', ''Must contain 1 digit'',
      ''Must contain 1 special character''] \<and>
   set [''Must contain 1 uppercase letter'', ''Must contain 1 digit'',
        ''Must contain 1 special character'']
     \<subseteq> set (validatePassword ''abcdefgh'' userId firstName lastName) \<and>
   validateSingleField clk st ''password'' ''abcdefgh'' =
     Some (joinWith ''; '' (validatePassword ''abcdefgh'' (getFieldValue st ''desiredUserID'')
             (getFieldValue st ''firstName'') (getFieldValue st ''lastName''))) \<and>
   (getFieldValue st ''desiredUserID'' = [] \<and> getFieldValue st ''firstName'' = [] \<and>
    getFieldValue st ''lastName'' = [] \<longrightarrow>
      validateSingleField clk st ''password'' ''abcdefgh'' =
        Some ''Must contain 1 uppercase letter; Must contain 1 digit; Must contain 1 special character'' \<and>
      (getFieldValue st ''password'' = ''abcdefgh'' \<longrightarrow>
         ''Password: Must contain 1 uppercase letter, Must contain 1 digit, Must contain 1 special character''
           \<in> set (validateFormErrors clk st))) \<and>
   (password \<noteq> [] \<and> validatePassword password (getFieldValue st ''desiredUserID'')
        (getFieldValue st ''firstName'') (getFieldValue st ''lastName'') \<noteq> [] \<longrightarrow>
      validateSingleField clk st ''password'' password =
        Some (joinWith ''; '' (validatePassword password (getFieldValue st ''desiredUserID'')
                (getFieldValue st ''firstName'') (getFieldValue st ''lastName'')))) \<and>
   (validatePassword (getFieldValue st ''password'') (getFieldValue st ''desiredUserID'')
        (getFieldValue st ''firstName'') (getFieldValue st ''lastName'') \<noteq> [] \<longrightarrow>
      ''Password: '' @ joinWith '', ''
          (validatePassword (getFieldValue st ''password'') (getFieldValue st ''desiredUserID'')
             (getFieldValue st ''firstName'') (getFieldValue st ''lastName''))
        \<in> set (validateFormErrors clk st)) \<and>
   ((''Must be 8-30 characters'' \<in> set (validatePassword password userId firstName lastName))
      = (length password < 8 \<or> length password > 30)) \<and>
   ((''Must contain 1 uppercase letter'' \<in> set (validatePassword password userId firstName lastName))
      = (\<not> list_ex isUpper password)) \<and>
   ((''Must contain 1 lowercase letter'' \<in> set (validatePassword password userId firstName lastName))
      = (\<not> list_ex isLower password)) \<and>
   ((''Must contain 1 digit'' \<in> set (validatePassword password userId firstName lastName))
      = (\<not> list_ex isDigit password)) \<and>
   ((''Must contain 1 special character'' \<in> set (validatePassword password userId firstName lastName))
      = (\<not> list_ex isSpecial password)) \<and>
   ((''Cannot contain quotes'' \<in> set (validatePassword password userId firstName lastName))
      = list_ex isQuote password) \<and>
   ((''Cannot contain User ID'' \<in> set (validatePassword password userId firstName lastName))
      = (userId \<noteq> [] \<and> includesStr (toLowerCase password) (toLowerCase userId))) \<and>
   ((''Cannot contain first name'' \<in> set (validatePassword password userId firstName lastName))
      = (firstName \<noteq> [] \<and> includesStr (toLowerCase password) (toLowerCase firstName))) \<and>
   ((''Cannot contain last name'' \<in> set (validatePassword password userId firstName lastName))
      = (lastName \<noteq> [] \<and> includesStr (toLowerCase password) (toLowerCase lastName)))"
proof -
  let ?U = "getFieldValue st ''desiredUserID''" and ?F = "getFieldValue st ''firstName''"
    and ?L = "getFieldValue st ''lastName''"
  have three: "validatePassword ''abcdefgh'' [] [] [] =
     [''Must contain 1 uppercase letter'', ''Must contain 1 digit'',
      ''Must contain 1 special character'']"
    by (simp add: validatePassword_abcdefgh)
  have sub: "set [''Must contain 1 uppercase letter'', ''Must contain 1 digit'',
        ''Must contain 1 special character'']
     \<subseteq> set (validatePassword ''abcdefgh'' userId firstName lastName)"
    unfolding validatePassword_abcdefgh by simp
  have ne: "validatePassword ''abcdefgh'' ?U ?F ?L \<noteq> []"
    unfolding validatePassword_abcdefgh by simp
  have single: "validateSingleField clk st ''password'' ''abcdefgh'' =
     Some (joinWith ''; '' (validatePassword ''abcdefgh'' ?U ?F ?L))"
    using ne by (simp add: validateSingleField_password)
  have gen1: "password \<noteq> [] \<and> validatePassword password ?U ?F ?L \<noteq> [] \<longrightarrow>
      validateSingleField clk st ''password'' password =
        Some (joinWith ''; '' (validatePassword password ?U ?F ?L))"
    by (simp add: validateSingleField_password)
  have gen2: "validatePassword (getFieldValue st ''password'') ?U ?F ?L \<noteq> [] \<longrightarrow>
      ''Password: '' @ joinWith '', '' (validatePassword (getFieldValue st ''password'') ?U ?F ?L)
        \<in> set (validateFormErrors clk st)"
    unfolding validateFormErrors_concat by simp
  have empty_ctx: "?U = [] \<and> ?F = [] \<and> ?L = [] \<longrightarrow>
      validateSingleField clk st ''password'' ''abcdefgh'' =
        Some ''Must contain 1 uppercase letter; Must contain 1 digit; Must contain 1 special character'' \<and>
      (getFieldValue st ''password'' = ''abcdefgh'' \<longrightarrow>
         ''Password: Must contain 1 uppercase letter, Must contain 1 digit, Must contain 1 special character''
           \<in> set (validateFormErrors clk st))"
  proof (intro impI conjI)
    assume e: "?U = [] \<and> ?F = [] \<and> ?L = []"
    show "validateSingleField clk st ''password'' ''abcdefgh'' =
        Some ''Must contain 1 uppercase letter; Must contain 1 digit; Must contain 1 special character''"
      unfolding single using e three by simp
    assume p: "getFieldValue st ''password'' = ''abcdefgh''"
    have j: "''Password: '' @ joinWith '', '' (validatePassword ''abcdefgh'' [] [] []) =
      ''Password: Must contain 1 uppercase letter, Must contain 1 digit, Must contain 1 special character''"
      unfolding three by simp
    have "validatePassword (getFieldValue st ''password'') ?U ?F ?L = validatePassword ''abcdefgh'' [] [] []"
      using e p by simp
    with gen2 three have "''Password: '' @ joinWith '', '' (validatePassword ''abcdefgh'' [] [] [])
        \<in> set (validateFormErrors clk st)" by simp
    then show "''Password: Must contain 1 uppercase letter, Must contain 1 digit, Must contain 1 special character''
           \<in> set (validateFormErrors clk st)"
      unfolding j .
  qed
  show ?thesis
    by (intro conjI three sub single empty_ctx gen1 gen2
          validatePassword_mem[of password userId firstName lastName])
qed

theorem validatePassword_collects_all_witness:
  "getFieldValue pwForm ''desiredUserID'' = [] \<and> getFieldValue pwForm ''firstName'' = [] \<and>
   getFieldValue pwForm ''lastName'' = [] \<and> getFieldValue pwForm ''password'' = ''abcdefgh'' \<and>
   validateSingleField exampleClock pwForm ''password'' ''abcdefgh'' =
     Some ''Must contain 1 uppercase letter; Must contain 1 digit; Must contain 1 special character'' \<and>
   ''Password: Must contain 1 uppercase letter, Must contain 1 digit, Must contain 1 special character''
     \<in> set (validateFormErrors exampleClock pwForm)"
proof -
  have h1: "getFieldValue pwForm ''desiredUserID'' = []" by code_simp
  have h2: "getFieldValue pwForm ''firstName'' = []" by code_simp
  have h3: "getFieldValue pwForm ''lastName'' = []" by code_simp
  have h4: "getFieldValue pwForm ''password'' = ''abcdefgh''" by code_simp
  note t = validatePassword_collects_all[of _ _ _ exampleClock pwForm]
  from t h1 h2 h3 have r1: "validateSingleField exampleClock pwForm ''password'' ''abcdefgh'' =
     Some ''Must contain 1 uppercase letter; Must contain 1 digit; Must contain 1 special character''"
    by blast
  from t h1 h2 h3 h4 have r2: "''Password: Must contain 1 uppercase letter, Must contain 1 digit, Must contain 1 special character''
     \<in> set (validateFormErrors exampleClock pwForm)"
    by blast
  show ?thesis by (intro conjI h1 h2 h3 h4 r1 r2)
qed

subsection \<open>Submission\<close>

text \<open>
  Claim C7, as amended. \<^verbatim>\<open>validateForm\<close> returns false and suppresses the event default
  exactly when its own list of errors is not empty, and then the alert shows that list in
  order; otherwise it returns true and does neither. The list holds, in this order, the
  error of the date of birth, of an address line 2 of one character, of the password
  rules (joined with a comma) and of a password that differs from its confirmation, and
  nothing else: no other field rule and not the table \<^verbatim>\<open>validationErrors\<close>.
\<close>

theorem validateForm_blocks_on_own_checks:
  "(returned (validateForm clk st) = False \<longleftrightarrow> validateFormErrors clk st \<noteq> []) \<and>
   (defaultPrevented (validateForm clk st) \<longleftrightarrow> validateFormErrors clk st \<noteq> []) \<and>
   alerted (validateForm clk st) =
     (if validateFormErrors clk st \<noteq> []
      then Some (''Please correct the following errors:'' @ [CHR 0x0A, CHR 0x0A]
                 @ joinWith [CHR 0x0A] (validateFormErrors clk st))
      else None) \<and>
   validateFormErrors clk st =
     (if truthy (validateDateOfBirth clk (getFieldValue st ''dateOfBirth''))
      then [''Date of Birth: '' @ the (validateDateOfBirth clk (getFieldValue st ''dateOfBirth''))]
      else []) @
     (if length (getFieldValue st ''addressLine2'') = 1
      then [''Address Line 2: Must be 2-30 characters if entered''] else []) @
     (if validatePassword (getFieldValue st ''password'') (getFieldValue st ''desiredUserID'')
           (getFieldValue st ''firstName'') (getFieldValue st ''lastName'') \<noteq> []
      then [''Password: '' @ joinWith '', ''
              (validatePassword (getFieldValue st ''password'') (getFieldValue st ''desiredUserID'')
                 (getFieldValue st ''firstName'') (getFieldValue st ''lastName''))]
      else []) @
     (if getFieldValue st ''password'' \<noteq> getFieldValue st ''confirmPassword''
      then [''Passwords do not match''] else [])"
proof -
  have a: "returned (validateForm clk st) = False \<longleftrightarrow> validateFormErrors clk st \<noteq> []"
    by (simp add: validateForm_def Let_def)
  have b: "defaultPrevented (validateForm clk st) \<longleftrightarrow> validateFormErrors clk st \<noteq> []"
    by (simp add: validateForm_def Let_def)
  have c: "alerted (validateForm clk st) =
     (if validateFormErrors clk st \<noteq> []
      then Some (''Please correct the following errors:'' @ [CHR 0x0A, CHR 0x0A]
                 @ joinWith [CHR 0x0A] (validateFormErrors clk st))
      else None)"
    by (simp add: validateForm_def Let_def)
  show ?thesis by (intro conjI a b c validateFormErrors_concat)
qed

text \<open>
  Claim C7 as stated fails: on a page whose first name is \<^verbatim>\<open>123\<close> the field rule reports
  an error, the error table holds it and the error count is 1, and \<^verbatim>\<open>validateForm\<close>
  returns true without suppressing the event default.
\<close>

theorem validateForm_ignores_field_errors_counterexample:
  "validateSingleField exampleClock badNameForm ''firstName'' (getFieldValue badNameForm ''firstName'')
     = Some ''Enter 1-30 characters, letters, apostrophes, and dashes only'' \<and>
   validationErrors badNameForm =
     [(''firstName'', ''Enter 1-30 characters, letters, apostrophes, and dashes only'')] \<and>
   errorCountOf badNameForm = 1 \<and>
   returned (validateForm exampleClock badNameForm) = True \<and>
   defaultPrevented (validateForm exampleClock badNameForm) = False \<and>
   alerted (validateForm exampleClock badNameForm) = None"
  by (intro conjI) code_simp+

end
